theory Spec2Isabelle
  imports Complex_Main "HOL-Library.Sublist"
begin

section \<open>Python values and exceptions\<close>

text \<open>
  The crawler is written in Python. Values of type \<open>Any\<close> (the entries of
  \<open>metadata\<close>, \<open>user_data\<close> and of a request context's \<open>data\<close> map) are
  modelled by a small universe of Python values; dictionaries with string keys are
  maps from \<open>string\<close>. Raised exceptions are values of the type \<open>error\<close>, and a
  function that may raise returns \<open>error + 'a\<close> with \<open>Inl\<close> the exception.
\<close>

datatype pyval =
    PyNone
  | PyBool bool
  | PyInt int
  | PyFloat real
  | PyStr string
  | PyList "pyval list"

type_synonym pydict = "string \<rightharpoonup> pyval"

datatype error =
    NodeLifecycleError
  | ValueError string
  | InvalidURLError string
  | ValidationError string
  | AttributeError
  | UnicodeDecodeError
  | TimeoutError
  | TypeError
  | ClientError string
  | RuntimeError string

text \<open>\<open>str(e)\<close>: the message of an exception; a timeout carries none.\<close>

fun str_of_error :: "error \<Rightarrow> string" where
  "str_of_error NodeLifecycleError = ''node lifecycle error''"
| "str_of_error (ValueError m) = m"
| "str_of_error (InvalidURLError m) = m"
| "str_of_error (ValidationError m) = m"
| "str_of_error AttributeError = ''attribute error''"
| "str_of_error UnicodeDecodeError = ''unicode decode error''"
| "str_of_error TimeoutError = []"
| "str_of_error TypeError = ''type error''"
| "str_of_error (ClientError m) = m"
| "str_of_error (RuntimeError m) = m"

text \<open>Python truthiness of the values the code tests with \<open>if x:\<close> / \<open>not x\<close>.\<close>

fun truthy :: "pyval \<Rightarrow> bool" where
  "truthy PyNone = False"
| "truthy (PyBool b) = b"
| "truthy (PyInt i) = (i \<noteq> 0)"
| "truthy (PyFloat r) = (r \<noteq> 0)"
| "truthy (PyStr s) = (s \<noteq> [])"
| "truthy (PyList xs) = (xs \<noteq> [])"

definition truthy_str :: "string option \<Rightarrow> bool" where
  "truthy_str s = (case s of None \<Rightarrow> False | Some t \<Rightarrow> t \<noteq> [])"

section \<open>FetchResponse (domain/value_objects/models.py)\<close>

record FetchResponse =
  resp_url :: string
  resp_html :: "string option"
  resp_status_code :: "int option"
  resp_headers :: "string \<rightharpoonup> string"
  resp_error :: "string option"
  resp_final_url :: "string option"
  resp_redirect_chain :: "string list"

text \<open>
  \<open>return self.final_url is not None and self.final_url != self.url\<close>
\<close>

definition is_redirect :: "FetchResponse \<Rightarrow> bool" where
  "is_redirect r = (resp_final_url r \<noteq> None \<and> resp_final_url r \<noteq> Some (resp_url r))"

definition is_success :: "FetchResponse \<Rightarrow> bool" where
  "is_success r = (resp_error r = None \<and> resp_html r \<noteq> None)"

definition is_ok :: "FetchResponse \<Rightarrow> bool" where
  "is_ok r = (case resp_status_code r of None \<Rightarrow> False | Some c \<Rightarrow> 200 \<le> c \<and> c < 300)"

text \<open>The docstring's second example: \<open>FetchResponse(url="http://example.com", final_url=None)\<close>.\<close>

definition response_without_final_url :: FetchResponse where
  "response_without_final_url =
     \<lparr>resp_url = ''http://example.com'', resp_html = None, resp_status_code = None,
      resp_headers = Map.empty, resp_error = None, resp_final_url = None,
      resp_redirect_chain = []\<rparr>"

definition response_redirected :: FetchResponse where
  "response_redirected =
     \<lparr>resp_url = ''http://old.com'', resp_html = None, resp_status_code = None,
      resp_headers = Map.empty, resp_error = None, resp_final_url = Some ''http://new.com'',
      resp_redirect_chain = []\<rparr>"

section \<open>The Python runtime the code calls into\<close>

text \<open>
  Parsed HTML is opaque to the crawler core; a tree adapter's \<open>parse\<close> either
  raises or yields a tree.
\<close>

datatype html_tree = HtmlTree string

type_synonym tree_adapter = "string \<Rightarrow> error + html_tree"

text \<open>
  Library behaviour that the repository calls but does not define is a parameter.
  The interpreter is not fixed by the repository, so this includes the points at which
  releases of \<open>urllib.parse\<close> differ (CPython 3.11.10 and 3.12.3 were compared):
  \<^item> \<open>bracketed_netloc_ok n\<close>: the check that \<open>urlsplit\<close> makes on a netloc \<open>n\<close> holding
    both \<open>[\<close> and \<open>]\<close> returns without raising. In 3.11.10 this is
    \<open>_check_bracketed_host\<close> on the text between the brackets, in 3.12.3
    \<open>_check_bracketed_netloc(n)\<close>, which also refuses text around the brackets; both
    validate an IPv6 or IPvFuture literal through \<open>ipaddress\<close>;
  \<^item> \<open>nfkc_ok n\<close>: \<open>urllib.parse._checknetloc\<close> accepts the non-ASCII netloc \<open>n\<close>;
  \<^item> \<open>uses_netloc\<close>: the list of that name (3.12.3 has one scheme more);
  \<^item> \<open>keeps_empty_netloc\<close>: which test \<open>urlunsplit\<close> makes before it writes \<open>//\<close>
    and the netloc. When it holds the test is that of 3.11.10,
    \<open>netloc or (scheme and scheme in uses_netloc) or url[:2] == '//'\<close>; otherwise that of
    3.12.3, \<open>netloc or (scheme and scheme in uses_netloc and url[:2] != '//')\<close>;
  \<^item> \<open>sha256_hexdigest\<close>: \<open>hashlib.sha256(text.encode(...)).hexdigest()\<close>;
  \<^item> \<open>default_parser\<close>: the adapter \<open>get_default_parser()\<close> returns.
\<close>

record PyEnv =
  bracketed_netloc_ok :: "string \<Rightarrow> bool"
  nfkc_ok :: "string \<Rightarrow> bool"
  uses_netloc :: "string list"
  keeps_empty_netloc :: bool
  sha256_hexdigest :: "string \<Rightarrow> string"
  default_parser :: tree_adapter

section \<open>urllib.parse as used by shared/utils/url\_utils.py\<close>

text \<open>
  \<open>normalize_url\<close> is \<open>urlunparse\<close> after \<open>urlparse\<close>. Both are CPython's
  (\<open>Lib/urllib/parse.py\<close>); they are transcribed here statement by statement, with
  \<open>s.find(c)\<close>/slicing written as \<open>takeWhile\<close>/\<open>dropWhile\<close>. Where the releases
  3.11.10 and 3.12.3 differ, the environment decides. Strings are lists of 8-bit
  characters.
\<close>

definition uses_params :: "string list" where
  "uses_params = ['''', ''ftp'', ''hdl'', ''prospero'', ''http'', ''imap'',
     ''https'', ''shttp'', ''rtsp'', ''rtsps'', ''rtspu'', ''sip'',
     ''sips'', ''mms'', ''sftp'', ''tel'']"

definition ascii_lowercase :: string where
  "ascii_lowercase = ''abcdefghijklmnopqrstuvwxyz''"

definition ascii_uppercase :: string where
  "ascii_uppercase = ''ABCDEFGHIJKLMNOPQRSTUVWXYZ''"

definition scheme_chars :: string where
  "scheme_chars = ascii_lowercase @ ascii_uppercase @ ''0123456789'' @ ''+-.''"

text \<open>\<open>_WHATWG_C0_CONTROL_OR_SPACE\<close>: the characters \<open>chr(0)\<close> .. \<open>chr(0x20)\<close>.\<close>

definition is_c0_control_or_space :: "char \<Rightarrow> bool" where
  "is_c0_control_or_space c = (of_char c \<le> (32::nat))"

text \<open>\<open>_UNSAFE_URL_BYTES_TO_REMOVE = ['\t', '\r', '\n']\<close>\<close>

definition is_unsafe_url_byte :: "char \<Rightarrow> bool" where
  "is_unsafe_url_byte c = (c = CHR 0x09 \<or> c = CHR 0x0D \<or> c = CHR 0x0A)"

definition is_ascii_alpha :: "char \<Rightarrow> bool" where
  "is_ascii_alpha c = (c \<in> set (ascii_lowercase @ ascii_uppercase))"

text \<open>\<open>str.lower()\<close> on one character; a scheme holds ASCII characters only.\<close>

definition lower_char :: "char \<Rightarrow> char" where
  "lower_char c =
     (case map_of (zip ascii_uppercase ascii_lowercase) c of Some l \<Rightarrow> l | None \<Rightarrow> c)"

text \<open>\<open>s.split(c, 1)\<close> when \<open>c in s\<close>: the text before the first \<open>c\<close>, and the text after it.\<close>

definition before_first :: "char \<Rightarrow> string \<Rightarrow> string" where
  "before_first c s = takeWhile (\<lambda>x. x \<noteq> c) s"

definition after_first :: "char \<Rightarrow> string \<Rightarrow> string" where
  "after_first c s = tl (dropWhile (\<lambda>x. x \<noteq> c) s)"

text \<open>
  \<open>_splitnetloc(url, 2)\<close>: the domain runs from index 2 to the earliest of
  \<open>/\<close>, \<open>?\<close>, \<open>#\<close> (or to the end); the rest starts at that delimiter.
\<close>

definition is_netloc_delim :: "char \<Rightarrow> bool" where
  "is_netloc_delim c = (c = CHR ''/'' \<or> c = CHR ''?'' \<or> c = CHR ''#'')"

definition splitnetloc :: "string \<Rightarrow> string \<times> string" where
  "splitnetloc url =
     (takeWhile (\<lambda>c. \<not> is_netloc_delim c) (drop 2 url),
      dropWhile (\<lambda>c. \<not> is_netloc_delim c) (drop 2 url))"

text \<open>
  The checks of \<open>urlsplit\<close> on a netloc, in the order the source makes them; each
  raises \<open>ValueError\<close> when it fails.
\<close>

definition bracket_check :: "PyEnv \<Rightarrow> string \<Rightarrow> bool" where
  "bracket_check env netloc =
     (if (CHR ''['' \<in> set netloc \<and> CHR '']'' \<notin> set netloc) \<or>
         (CHR '']'' \<in> set netloc \<and> CHR ''['' \<notin> set netloc) then False
      else if CHR ''['' \<in> set netloc \<and> CHR '']'' \<in> set netloc
        then bracketed_netloc_ok env netloc
      else True)"

definition checknetloc :: "PyEnv \<Rightarrow> string \<Rightarrow> bool" where
  "checknetloc env netloc =
     (if netloc = [] \<or> list_all (\<lambda>c. of_char c < (128::nat)) netloc then True
      else nfkc_ok env netloc)"

text \<open>
  \<open>url.lstrip(_WHATWG_C0_CONTROL_OR_SPACE)\<close>, then every tab, CR and LF removed.
\<close>

definition strip_url :: "string \<Rightarrow> string" where
  "strip_url url =
     filter (\<lambda>c. \<not> is_unsafe_url_byte c) (dropWhile is_c0_control_or_space url)"

text \<open>
  The scheme: \<open>i = url.find(':')\<close>; when \<open>i > 0\<close>, \<open>url[0]\<close> is an ASCII letter and
  every character of \<open>url[:i]\<close> is a scheme character, the scheme is \<open>url[:i].lower()\<close>
  and the URL continues after the colon. Otherwise the scheme stays empty.
\<close>

definition split_scheme :: "string \<Rightarrow> string \<times> string" where
  "split_scheme url =
     (if CHR '':'' \<in> set url \<and> before_first (CHR '':'') url \<noteq> [] \<and> is_ascii_alpha (hd url) \<and>
         list_all (\<lambda>c. c \<in> set scheme_chars) (before_first (CHR '':'') url)
      then (map lower_char (before_first (CHR '':'') url), after_first (CHR '':'') url)
      else ([], url))"

definition split_at :: "char \<Rightarrow> string \<Rightarrow> string \<times> string" where
  "split_at c s = (if c \<in> set s then (before_first c s, after_first c s) else (s, []))"

text \<open>\<open>urlsplit(url)\<close>: (scheme, netloc, path, query, fragment), or \<open>ValueError\<close>.\<close>

definition urlsplit :: "PyEnv \<Rightarrow> string \<Rightarrow> error + (string \<times> string \<times> string \<times> string \<times> string)" where
  "urlsplit env url0 =
     (let (scheme, url1) = split_scheme (strip_url url0);
          (netloc, url2) = (if take 2 url1 = ''//'' then splitnetloc url1 else ([], url1))
      in if take 2 url1 = ''//'' \<and> \<not> bracket_check env netloc
         then Inl (ValueError ''Invalid IPv6 URL'')
         else
           (let (url3, fragment) = split_at (CHR ''#'') url2;
                (url4, query) = split_at (CHR ''?'') url3
            in if \<not> checknetloc env netloc
               then Inl (ValueError ''netloc contains invalid characters under NFKC normalization'')
               else Inr (scheme, netloc, url4, query, fragment)))"

text \<open>
  \<open>_splitparams(url)\<close>: with a \<open>/\<close> in the URL the search for \<open>;\<close> starts at the last
  \<open>/\<close> (\<open>url.find(';', url.rfind('/'))\<close>), so only the last path segment can carry
  parameters; \<open>dir\<close> is \<open>url[:rfind('/') + 1]\<close> and \<open>seg\<close> the rest. Without a \<open>/\<close>
  the index is \<open>url.find(';')\<close>, which is \<open>-1\<close> when there is none.
\<close>

definition splitparams :: "string \<Rightarrow> string \<times> string" where
  "splitparams url =
     (if CHR ''/'' \<in> set url then
        (let dir = rev (dropWhile (\<lambda>c. c \<noteq> CHR ''/'') (rev url));
             seg = rev (takeWhile (\<lambda>c. c \<noteq> CHR ''/'') (rev url))
         in if CHR '';'' \<notin> set seg then (url, [])
            else (dir @ before_first (CHR '';'') seg, after_first (CHR '';'') seg))
      else if CHR '';'' \<in> set url
        then (before_first (CHR '';'') url, after_first (CHR '';'') url)
      else (butlast url, url))"

text \<open>\<open>urlparse(url)\<close>: (scheme, netloc, path, params, query, fragment).\<close>

definition urlparse ::
  "PyEnv \<Rightarrow> string \<Rightarrow> error + (string \<times> string \<times> string \<times> string \<times> string \<times> string)" where
  "urlparse env url =
     (case urlsplit env url of
        Inl e \<Rightarrow> Inl e
      | Inr (scheme, netloc, path, query, fragment) \<Rightarrow>
          (let (path', params) =
                 (if scheme \<in> set uses_params \<and> CHR '';'' \<in> set path
                  then splitparams path else (path, []))
           in Inr (scheme, netloc, path', params, query, fragment)))"



section \<open>URLUtils (shared/utils/url\_utils.py)\<close>

text \<open>The \<open>lru_cache\<close> decorators memoise pure functions and are not modelled.\<close>

definition parse_url_cached ::
  "PyEnv \<Rightarrow> string \<Rightarrow> error + (string \<times> string \<times> string \<times> string \<times> string \<times> string)" where
  "parse_url_cached env url = urlparse env url"


definition get_domain :: "PyEnv \<Rightarrow> string \<Rightarrow> error + string option" where
  "get_domain env url =
     (case parse_url_cached env url of
        Inl e \<Rightarrow> Inl e
      | Inr (_, netloc, _, _, _, _) \<Rightarrow> Inr (if netloc \<noteq> [] then Some netloc else None))"

text \<open>
  Two permissive environments for evaluating examples: one with the \<open>urlunsplit\<close> and
  the \<open>uses_netloc\<close> of CPython 3.11.10, one with those of CPython 3.12.3.
\<close>

definition uses_netloc_3_11_10 :: "string list" where
  "uses_netloc_3_11_10 = ['''', ''ftp'', ''http'', ''gopher'', ''nntp'', ''telnet'',
     ''imap'', ''wais'', ''file'', ''mms'', ''https'', ''shttp'',
     ''snews'', ''prospero'', ''rtsp'', ''rtsps'', ''rtspu'', ''rsync'',
     ''svn'', ''svn+ssh'', ''sftp'', ''nfs'', ''git'', ''git+ssh'',
     ''ws'', ''wss'']"

definition example_env :: PyEnv where
  "example_env =
     \<lparr>bracketed_netloc_ok = (\<lambda>n. True), nfkc_ok = (\<lambda>n. True),
      uses_netloc = uses_netloc_3_11_10, keeps_empty_netloc = True,
      sha256_hexdigest = (\<lambda>t. replicate 64 (CHR ''0'')),
      default_parser = (\<lambda>html. Inr (HtmlTree html))\<rparr>"


section \<open>Node (domain/entities/node.py)\<close>

datatype NodeLifecycle = URL_STAGE | HTML_STAGE

text \<open>
  Modelled from the spec: the enum \<open>NodeLifecycle\<close> (domain/value\_objects/lifecycle.py)
  is not among the sources; its two string values are the ones the DTO format lists,
  \<open>"url_stage"\<close> and \<open>"html_stage"\<close>, and \<open>NodeLifecycle(s)\<close> raises \<open>ValueError\<close> on
  any other string.
\<close>

fun lifecycle_value :: "NodeLifecycle \<Rightarrow> string" where
  "lifecycle_value URL_STAGE = ''url_stage''"
| "lifecycle_value HTML_STAGE = ''html_stage''"

definition NodeLifecycle_of :: "string \<Rightarrow> error + NodeLifecycle" where
  "NodeLifecycle_of s =
     (if s = ''url_stage'' then Inr URL_STAGE
      else if s = ''html_stage'' then Inr HTML_STAGE
      else Inl (ValueError ''not a valid NodeLifecycle''))"

datatype datetime = Datetime int

text \<open>
  The serialised fields of a node, in declaration order. They are what a plugin or a
  hash strategy can read of the node it is handed.
\<close>

record NodeData =
  url :: string
  node_id :: string
  depth :: int
  should_scan :: bool
  can_create_edges :: bool
  created_at :: datetime
  metadata :: pydict
  user_data :: pydict
  scanned :: bool
  response_status :: "int option"
  content_hash :: "string option"
  priority :: "int option"
  lifecycle_stage :: NodeLifecycle

text \<open>
  Modelled from the spec: \<open>NodePluginContext\<close>, \<open>NodePluginType\<close> and
  \<open>NodePluginManager\<close> (extensions/plugins/node/base.py) are not among the sources.
  Per the spec (4.4) the context carries the node, url, depth, should\_scan,
  can\_create\_edges, html, html\_tree, parser, metadata, user\_data and extracted\_links;
  a plugin returns a (possibly mutated) context; the manager keeps its plugins in
  registration order, threads the context through all plugins of the stage, and a
  plugin that raises is skipped with the context passed on unchanged.
  The context's reference to the node is the first argument of a plugin: the node as
  it is when the plugin runs.
\<close>

datatype NodePluginType = ON_NODE_CREATED | ON_BEFORE_SCAN | ON_HTML_PARSED | ON_AFTER_SCAN

record NodePluginContext =
  ctx_url :: string
  ctx_depth :: int
  ctx_should_scan :: bool
  ctx_can_create_edges :: bool
  ctx_html :: "string option"
  ctx_html_tree :: "html_tree option"
  ctx_parser :: "tree_adapter option"
  ctx_metadata :: pydict
  ctx_user_data :: pydict
  ctx_extracted_links :: "string list"

type_synonym node_plugin = "NodeData \<Rightarrow> NodePluginContext \<Rightarrow> error + NodePluginContext"

record NodePluginManager =
  registered :: "(NodePluginType \<times> node_plugin) list"

definition register :: "NodePluginManager \<Rightarrow> NodePluginType \<Rightarrow> node_plugin \<Rightarrow> NodePluginManager" where
  "register pm stage p = pm\<lparr>registered := registered pm @ [(stage, p)]\<rparr>"

definition plugins_of :: "NodePluginManager \<Rightarrow> NodePluginType \<Rightarrow> node_plugin list" where
  "plugins_of pm stage = map snd (filter (\<lambda>sp. fst sp = stage) (registered pm))"

definition run_plugin :: "NodeData \<Rightarrow> node_plugin \<Rightarrow> NodePluginContext \<Rightarrow> NodePluginContext" where
  "run_plugin node p c = (case p node c of Inl e \<Rightarrow> c | Inr c' \<Rightarrow> c')"

definition execute ::
  "NodePluginManager \<Rightarrow> NodePluginType \<Rightarrow> NodeData \<Rightarrow> NodePluginContext \<Rightarrow> NodePluginContext" where
  "execute pm stage node c = foldl (\<lambda>acc p. run_plugin node p acc) c (plugins_of pm stage)"



text \<open>
  A hash strategy is an object whose \<open>compute_hash(node)\<close> may answer differently from
  call to call: \<open>compute k n\<close> is what its \<open>k\<close>-th invocation returns on node \<open>n\<close>, and
  \<open>calls\<close> counts the invocations made so far.
\<close>

datatype HashStrategy = HashStrategy (compute: "nat \<Rightarrow> NodeData \<Rightarrow> pyval") (calls: nat)

definition compute_hash :: "HashStrategy \<Rightarrow> NodeData \<Rightarrow> pyval \<times> HashStrategy" where
  "compute_hash hs n = (compute hs (calls hs) n, HashStrategy (compute hs) (Suc (calls hs)))"

text \<open>
  The node: its serialised fields, the three dependencies that are excluded from
  serialisation, and the attribute \<open>_hash_determinism_validated\<close> that
  \<open>get_content_hash\<close> sets (absent on a fresh node, read through \<open>hasattr\<close>).
\<close>

record Node = NodeData +
  plugin_manager :: "NodePluginManager option"
  tree_parser :: "tree_adapter option"
  hash_strategy :: "HashStrategy option"
  hash_determinism_validated :: bool

definition node_data :: "Node \<Rightarrow> NodeData" where
  "node_data self = NodeData.truncate self"

subsection \<open>Construction and validation\<close>

definition validate_url :: "PyEnv \<Rightarrow> string \<Rightarrow> error + string" where
  "validate_url env v =
     (if v = [] then Inl (InvalidURLError ''URL cannot be empty'')
      else if \<not> (take 7 v = ''http://'' \<or> take 8 v = ''https://'')
        then Inl (InvalidURLError ''URL must start with http:// or https://'')
      else (case urlparse env v of
              Inl e \<Rightarrow> Inl e
            | Inr (scheme, netloc, rest) \<Rightarrow>
                if netloc = [] then Inl (InvalidURLError ''URL must have a valid domain'')
                else Inr v))"

text \<open>The field constraints \<open>depth: ge=0\<close> and \<open>priority: ge=1, le=10\<close>.\<close>

definition field_constraints_ok :: "'a NodeData_scheme \<Rightarrow> bool" where
  "field_constraints_ok n =
     (0 \<le> depth n \<and> (case priority n of None \<Rightarrow> True | Some p \<Rightarrow> 1 \<le> p \<and> p \<le> 10))"

text \<open>
  \<open>_trigger_node_created_hook\<close>: with a plugin manager attached, the ON\_NODE\_CREATED
  plugins run on a context built from the node, and the node takes over the context's
  \<open>should_scan\<close>, \<open>can_create_edges\<close> and \<open>user_data\<close> entries.
\<close>

definition created_context :: "Node \<Rightarrow> NodePluginContext" where
  "created_context self =
     \<lparr>ctx_url = url self, ctx_depth = depth self, ctx_should_scan = should_scan self,
      ctx_can_create_edges = can_create_edges self, ctx_html = None, ctx_html_tree = None,
      ctx_parser = None, ctx_metadata = Map.empty, ctx_user_data = Map.empty,
      ctx_extracted_links = []\<rparr>"

definition trigger_node_created_hook :: "Node \<Rightarrow> Node" where
  "trigger_node_created_hook self =
     (case plugin_manager self of
        None \<Rightarrow> self
      | Some pm \<Rightarrow>
          (let c = execute pm ON_NODE_CREATED (node_data self) (created_context self)
           in self\<lparr>should_scan := ctx_should_scan c,
                   can_create_edges := ctx_can_create_edges c,
                   user_data := user_data self ++ ctx_user_data c\<rparr>))"

text \<open>
  \<open>Node(...)\<close>: the keyword arguments are given as a node record; the URL validator
  raises \<open>InvalidURLError\<close> itself, a violated field constraint is pydantic's
  \<open>ValidationError\<close>; \<open>model_post_init\<close> then runs the creation hook. A new object has
  no \<open>_hash_determinism_validated\<close> attribute.
\<close>

definition Node_init :: "PyEnv \<Rightarrow> Node \<Rightarrow> error + Node" where
  "Node_init env kwargs =
     (case validate_url env (url kwargs) of
        Inl e \<Rightarrow> Inl e
      | Inr _ \<Rightarrow>
          if \<not> field_constraints_ok kwargs then Inl (ValidationError ''field constraint'')
          else Inr (trigger_node_created_hook (kwargs\<lparr>hash_determinism_validated := False\<rparr>)))"

definition mark_as_scanned :: "Node \<Rightarrow> Node" where
  "mark_as_scanned self = self\<lparr>scanned := True\<rparr>"

subsection \<open>Content hash\<close>

text \<open>
  Modelled from the spec: the constant \<open>SHA256_HASH_PATTERN\<close> (shared/constants.py) is
  not among the sources. Per the spec (4.5) only a 64-character lowercase hexadecimal
  string is accepted, so \<open>re.match(SHA256_HASH_PATTERN, s)\<close> succeeds exactly on those.
\<close>

definition sha256_hash_pattern_match :: "string \<Rightarrow> bool" where
  "sha256_hash_pattern_match s =
     (length s = 64 \<and> list_all (\<lambda>c. c \<in> set ''0123456789abcdef'') s)"

text \<open>
  \<open>_validate_hash_strategy_deterministic(first_hash)\<close>: a second call of the strategy
  on the same node; \<open>ValueError\<close> when the two results differ.
\<close>

definition validate_hash_strategy_deterministic :: "Node \<Rightarrow> string \<Rightarrow> (error + unit) \<times> Node" where
  "validate_hash_strategy_deterministic self first_hash =
     (case hash_strategy self of
        None \<Rightarrow> (Inr (), self)
      | Some hs \<Rightarrow>
          (let (second_hash, hs') = compute_hash hs (node_data self);
               self' = self\<lparr>hash_strategy := Some hs'\<rparr>
           in if PyStr first_hash \<noteq> second_hash
              then (Inl (ValueError ''Hash strategy is NOT DETERMINISTIC!''), self')
              else (Inr (), self')))"

definition get_content_hash :: "PyEnv \<Rightarrow> Node \<Rightarrow> (error + string) \<times> Node" where
  "get_content_hash env self =
     (if lifecycle_stage self \<noteq> HTML_STAGE then (Inl NodeLifecycleError, self)
      else (case hash_strategy self of
        Some hs \<Rightarrow>
          (let (hash_value, hs') = compute_hash hs (node_data self);
               self1 = self\<lparr>hash_strategy := Some hs'\<rparr>
           in (case hash_value of
                 PyStr h \<Rightarrow>
                   if \<not> sha256_hash_pattern_match h
                   then (Inl (ValueError ''Hash strategy must return valid SHA256 hex digest''), self1)
                   else if \<not> hash_determinism_validated self1 then
                     (case validate_hash_strategy_deterministic self1 h of
                        (Inl e, self2) \<Rightarrow> (Inl e, self2)
                      | (Inr _, self2) \<Rightarrow> (Inr h, self2\<lparr>hash_determinism_validated := True\<rparr>))
                   else (Inr h, self1)
               | _ \<Rightarrow> (Inl (ValueError ''Hash strategy must return string''), self1)))
      | None \<Rightarrow>
          (case user_data self ''text_content'' of
             None \<Rightarrow> (Inr (sha256_hexdigest env []), self)
           | Some (PyStr text) \<Rightarrow> (Inr (sha256_hexdigest env text), self)
           | Some _ \<Rightarrow> (Inl AttributeError, self))))"

text \<open>\<open>_compute_content_hash\<close>: any exception of \<open>get_content_hash\<close> leaves \<open>content_hash = None\<close>.\<close>

definition compute_content_hash :: "PyEnv \<Rightarrow> Node \<Rightarrow> Node" where
  "compute_content_hash env self =
     (case get_content_hash env self of
        (Inr h, self') \<Rightarrow> self'\<lparr>content_hash := Some h\<rparr>
      | (Inl e, self') \<Rightarrow> self'\<lparr>content_hash := None\<rparr>)"

text \<open>
  What the contract of a strategy asks of a result: a string of 64 lowercase
  hexadecimal characters. \<open>strategy_calls\<close> reads the number of invocations the
  node's strategy has seen.
\<close>

definition is_sha256_digest :: "pyval \<Rightarrow> bool" where
  "is_sha256_digest v = (case v of PyStr h \<Rightarrow> sha256_hash_pattern_match h | _ \<Rightarrow> False)"

definition strategy_calls :: "Node \<Rightarrow> nat option" where
  "strategy_calls self = map_option calls (hash_strategy self)"

subsection \<open>process\_html\<close>

text \<open>
  \<open>_parse_html_sync\<close> (run on the thread pool by \<open>_parse_html_async\<close>): the node's own
  adapter, or the default one; \<open>parse\<close> may raise.
\<close>

definition parse_html_sync :: "PyEnv \<Rightarrow> Node \<Rightarrow> string \<Rightarrow> error + (tree_adapter \<times> html_tree)" where
  "parse_html_sync env self html =
     (let parser = (case tree_parser self of None \<Rightarrow> default_parser env | Some p \<Rightarrow> p)
      in (case parser html of Inl e \<Rightarrow> Inl e | Inr html_tree \<Rightarrow> Inr (parser, html_tree)))"

definition update_from_context :: "Node \<Rightarrow> NodePluginContext \<Rightarrow> Node" where
  "update_from_context self c =
     self\<lparr>metadata := ctx_metadata c, user_data := user_data self ++ ctx_user_data c\<rparr>"

definition scan_context :: "Node \<Rightarrow> string \<Rightarrow> html_tree \<Rightarrow> tree_adapter \<Rightarrow> NodePluginContext" where
  "scan_context self html html_tree parser =
     \<lparr>ctx_url = url self, ctx_depth = depth self, ctx_should_scan = should_scan self,
      ctx_can_create_edges = can_create_edges self, ctx_html = Some html,
      ctx_html_tree = Some html_tree, ctx_parser = Some parser,
      ctx_metadata = metadata self, ctx_user_data = user_data self,
      ctx_extracted_links = []\<rparr>"

text \<open>
  \<open>_execute_plugins\<close>: ON\_BEFORE\_SCAN, ON\_HTML\_PARSED, then \<open>_update_from_context\<close> on
  the node, then ON\_AFTER\_SCAN. The assignment \<open>self.metadata = context.metadata\<close> is
  validated by pydantic (\<open>validate_assignment=True\<close>), which stores a copy, so later
  changes of the context's dict do not reach the node.
\<close>

definition execute_plugins ::
  "Node \<Rightarrow> string \<Rightarrow> html_tree \<Rightarrow> tree_adapter \<Rightarrow> NodePluginContext \<times> Node" where
  "execute_plugins self html html_tree parser =
     (let c0 = scan_context self html html_tree parser
      in (case plugin_manager self of
            None \<Rightarrow> (c0, self)
          | Some pm \<Rightarrow>
              (let c1 = execute pm ON_BEFORE_SCAN (node_data self) c0;
                   c2 = execute pm ON_HTML_PARSED (node_data self) c1;
                   self' = update_from_context self c2;
                   c3 = execute pm ON_AFTER_SCAN (node_data self') c2
               in (c3, self'))))"

definition cleanup_memory :: "NodePluginContext \<Rightarrow> NodePluginContext" where
  "cleanup_memory c = c\<lparr>ctx_html := None, ctx_html_tree := None\<rparr>"

text \<open>
  \<open>process_html(html)\<close> returns the extracted links or raises, and mutates the node;
  the result is the pair of the outcome and the node afterwards.
\<close>

definition process_html :: "PyEnv \<Rightarrow> Node \<Rightarrow> string \<Rightarrow> (error + string list) \<times> Node" where
  "process_html env self html =
     (if lifecycle_stage self = HTML_STAGE then (Inr [], self)
      else
        (let self1 = self\<lparr>lifecycle_stage := HTML_STAGE\<rparr>
         in (case parse_html_sync env self1 html of
               Inl e \<Rightarrow> (Inl e, self1)
             | Inr (parser, html_tree) \<Rightarrow>
                 (let (c, self2) = execute_plugins self1 html html_tree parser;
                      self3 = self2\<lparr>user_data := user_data self2 ++ ctx_user_data c\<rparr>;
                      self4 = compute_content_hash env self3;
                      c' = cleanup_memory c
                  in (Inr (ctx_extracted_links c'), self4)))))"

section \<open>NodeScanner (application/use\_cases/crawling/node\_scanner.py)\<close>

text \<open>
  The driver's \<open>fetch(url)\<close> raises, or returns a response or \<open>None\<close>. \<open>not result\<close> is
  true only of \<open>None\<close> (a pydantic model is always truthy); \<open>result.error\<close> is tested
  for truthiness, so an empty error string counts as no error.
\<close>

type_synonym driver_fetch = "string \<Rightarrow> error + FetchResponse option"

definition scan_node ::
  "PyEnv \<Rightarrow> driver_fetch \<Rightarrow> Node \<Rightarrow> (string list \<times> FetchResponse option) \<times> Node" where
  "scan_node env driver node =
     (case driver (url node) of
        Inl e \<Rightarrow> (([], None), mark_as_scanned node)
      | Inr None \<Rightarrow> (([], None), mark_as_scanned node)
      | Inr (Some result) \<Rightarrow>
          if truthy_str (resp_error result) then (([], Some result), mark_as_scanned node)
          else
            (let node1 = node\<lparr>response_status := resp_status_code result\<rparr>
             in (case resp_html result of
                   None \<Rightarrow> (([], Some result), mark_as_scanned node1)
                 | Some html \<Rightarrow>
                     if html = [] then (([], Some result), mark_as_scanned node1)
                     else (case process_html env node1 html of
                             (Inl e, node2) \<Rightarrow> (([], None), mark_as_scanned node2)
                           | (Inr links, node2) \<Rightarrow>
                               ((links, Some result), mark_as_scanned node2)))))"

text \<open>
  The outcomes of \<open>driver.fetch\<close> that \<open>scan_node\<close> treats as a failed fetch: an
  exception, \<open>None\<close>, or a response whose error is truthy.
\<close>

definition fetch_failed :: "error + FetchResponse option \<Rightarrow> bool" where
  "fetch_failed out =
     (case out of Inl e \<Rightarrow> True | Inr None \<Rightarrow> True | Inr (Some r) \<Rightarrow> truthy_str (resp_error r))"

section \<open>AsyncDriver (infrastructure/transport/async\_http/driver.py)\<close>

text \<open>
  Modelled from the spec: \<open>AsyncHTTPContext\<close>, \<open>AsyncHTTPStage\<close> and
  \<open>DriverPluginManager\<close> (transport/async\_http/context.py, stages.py and
  transport/plugin\_manager.py) are not among the sources. Per the spec (4.3) the
  per-request context carries url, headers, cookies, timeout, status, response
  headers, html, error and an arbitrary \<open>data\<close> map (the session and response handles
  are left out); at each stage the registered plugins run on the shared context, and a
  plugin's exception never crosses the manager, so \<open>execute_hook_async\<close> always
  returns a context.
\<close>

datatype AsyncHTTPStage =
    SESSION_REUSED | SESSION_CREATING | SESSION_CREATED
  | PREPARING_REQUEST | SENDING_REQUEST | RESPONSE_RECEIVED | PROCESSING_RESPONSE
  | REQUEST_COMPLETED | REQUEST_FAILED

record AsyncHTTPContext =
  hctx_url :: string
  hctx_headers :: "string \<rightharpoonup> string"
  hctx_cookies :: "string \<rightharpoonup> string"
  hctx_params :: "string \<rightharpoonup> string"
  hctx_status_code :: "int option"
  hctx_response_headers :: "string \<rightharpoonup> string"
  hctx_html :: "string option"
  hctx_error :: "string option"
  hctx_cancelled :: bool
  hctx_data :: pydict

text \<open>What \<open>session.get(...)\<close> yields: the aiohttp response the driver reads.\<close>

record HttpResponse =
  hr_status :: int
  hr_headers :: "string \<rightharpoonup> string"
  hr_url :: string
  hr_history :: "string list"
  hr_text :: "error + string"

text \<open>
  A driver in its world. Plugins are objects with state and the network changes from
  one request to the next, so both are indexed by the number of the attempt within one
  \<open>fetch\<close>: \<open>execute_hook k stage ctx\<close> is what \<open>plugin_manager.execute_hook_async(stage, ctx)\<close>
  returns during attempt \<open>k\<close>, and \<open>http_get k url headers params\<close> is what the request
  of attempt \<open>k\<close> produces. \<open>max_concurrent\<close> is
  \<open>config.get("max_concurrent_requests", DEFAULT_MAX_CONCURRENT_REQUESTS)\<close>, an integer
  that the constructor does not check.
\<close>

record AsyncDriver =
  execute_hook :: "nat \<Rightarrow> AsyncHTTPStage \<Rightarrow> AsyncHTTPContext \<Rightarrow> AsyncHTTPContext"
  http_get :: "nat \<Rightarrow> string \<Rightarrow> (string \<rightharpoonup> string) \<Rightarrow> (string \<rightharpoonup> string) \<Rightarrow> error + HttpResponse"
  max_concurrent :: int

definition dict_get :: "pydict \<Rightarrow> string \<Rightarrow> pyval \<Rightarrow> pyval" where
  "dict_get d k dflt = (case d k of None \<Rightarrow> dflt | Some v \<Rightarrow> v)"

definition new_http_context :: "string \<Rightarrow> AsyncHTTPContext" where
  "new_http_context u =
     \<lparr>hctx_url = u, hctx_headers = Map.empty, hctx_cookies = Map.empty,
      hctx_params = Map.empty, hctx_status_code = None, hctx_response_headers = Map.empty,
      hctx_html = None, hctx_error = None, hctx_cancelled = False, hctx_data = Map.empty\<rparr>"

text \<open>\<open>_create_cancelled_response(ctx)\<close>: built from \<open>ctx.url\<close> and the cancellation reason.\<close>

definition pystr :: "pyval \<Rightarrow> string" where
  "pystr v = (case v of PyStr s \<Rightarrow> s | PyNone \<Rightarrow> ''None'' | _ \<Rightarrow> ''<object>'')"

definition create_cancelled_response :: "AsyncHTTPContext \<Rightarrow> FetchResponse" where
  "create_cancelled_response c =
     \<lparr>resp_url = hctx_url c, resp_html = None, resp_status_code = None,
      resp_headers = Map.empty,
      resp_error = Some (''Cancelled: '' @ pystr (dict_get (hctx_data c) ''cancellation_reason'' (PyStr ''Unknown''))),
      resp_final_url = None, resp_redirect_chain = []\<rparr>"

text \<open>
  Modelled from the spec: \<open>BaseDriver._handle_fetch_error\<close> (transport/base.py) is not
  among the sources; a failure is signalled by a response for the requested URL with a
  non-nil error, here the exception's text.
\<close>

definition handle_fetch_error :: "string \<Rightarrow> error \<Rightarrow> FetchResponse" where
  "handle_fetch_error u e =
     \<lparr>resp_url = u, resp_html = None, resp_status_code = None, resp_headers = Map.empty,
      resp_error = Some (str_of_error e), resp_final_url = None, resp_redirect_chain = []\<rparr>"

text \<open>
  The end of the \<open>try\<close> body once the response text is read: PROCESSING\_RESPONSE,
  REQUEST\_COMPLETED, and the response built for the requested URL.
\<close>

definition complete_request ::
  "AsyncDriver \<Rightarrow> nat \<Rightarrow> string \<Rightarrow> string option \<Rightarrow> string list \<Rightarrow> AsyncHTTPContext \<Rightarrow> FetchResponse" where
  "complete_request drv k u final_url redirect_chain c6 =
     (let c7 = execute_hook drv k PROCESSING_RESPONSE c6;
          c8 = execute_hook drv k REQUEST_COMPLETED c7
      in \<lparr>resp_url = u, resp_html = hctx_html c8, resp_status_code = hctx_status_code c8,
          resp_headers = hctx_response_headers c8, resp_error = hctx_error c8,
          resp_final_url = final_url, resp_redirect_chain = redirect_chain\<rparr>)"

text \<open>
  One pass through the body of \<open>fetch\<close>'s \<open>try\<close>: it returns a response, or an
  exception reaches the \<open>except\<close> clause with the context as it was last assigned.
  After \<open>_get_session()\<close> the session exists and is open, which selects the
  SESSION\_REUSED hook.
\<close>

datatype attempt_result = Returned FetchResponse | Excepted AsyncHTTPContext error

definition attempt :: "AsyncDriver \<Rightarrow> nat \<Rightarrow> string \<Rightarrow> attempt_result" where
  "attempt drv k u =
     (let c1 = execute_hook drv k SESSION_REUSED (new_http_context u) in
      if hctx_cancelled c1 then Returned (create_cancelled_response c1) else
      let c2 = execute_hook drv k PREPARING_REQUEST c1 in
      if hctx_cancelled c2 then Returned (create_cancelled_response c2) else
      let c3 = execute_hook drv k SENDING_REQUEST c2 in
      if hctx_cancelled c3 then Returned (create_cancelled_response c3) else
      (case http_get drv k u (hctx_headers c3) (hctx_params c3) of
         Inl e \<Rightarrow> Excepted c3 e
       | Inr response \<Rightarrow>
           (let c4 = c3\<lparr>hctx_status_code := Some (hr_status response),
                        hctx_response_headers := hr_headers response\<rparr>;
                final_url = (if hr_url response \<noteq> u then Some (hr_url response) else None);
                redirect_chain = hr_history response;
                c5 = execute_hook drv k RESPONSE_RECEIVED c4
            in (case hr_text response of
                  Inl e \<Rightarrow>
                    if e = UnicodeDecodeError
                    then Returned (complete_request drv k u final_url redirect_chain (c5\<lparr>hctx_html := None\<rparr>))
                    else Excepted c5 e
                | Inr t \<Rightarrow>
                    Returned (complete_request drv k u final_url redirect_chain (c5\<lparr>hctx_html := Some t\<rparr>))))))"

text \<open>
  \<open>fetch(url)\<close>. In the \<open>except\<close> clause the error text is stored, the REQUEST\_FAILED
  hook runs, and if \<open>ctx.data["should_retry"]\<close> is truthy the driver sleeps for
  \<open>ctx.data.get("retry_delay", 1.0)\<close> and calls \<open>fetch(url)\<close> again. The recursion
  carries no counter, so the model is given fuel: \<open>fetch n\<close> makes at most \<open>n\<close>
  attempts and is \<open>None\<close> when the \<open>n\<close>-th attempt asks for another one. A result comes
  with the delays slept before it; \<open>asyncio.sleep\<close> raises \<open>TypeError\<close> on a delay that
  is not a number.
\<close>

definition is_number :: "pyval \<Rightarrow> bool" where
  "is_number v = (case v of PyInt i \<Rightarrow> True | PyFloat r \<Rightarrow> True | PyBool b \<Rightarrow> True | _ \<Rightarrow> False)"

fun fetch ::
  "nat \<Rightarrow> AsyncDriver \<Rightarrow> nat \<Rightarrow> string \<Rightarrow> ((error + FetchResponse) \<times> pyval list) option" where
  "fetch 0 drv k u = None"
| "fetch (Suc n) drv k u =
     (case attempt drv k u of
        Returned r \<Rightarrow> Some (Inr r, [])
      | Excepted c e \<Rightarrow>
          (let c' = execute_hook drv k REQUEST_FAILED (c\<lparr>hctx_error := Some (str_of_error e)\<rparr>) in
           if truthy (dict_get (hctx_data c') ''should_retry'' (PyBool False)) then
             (let retry_delay = dict_get (hctx_data c') ''retry_delay'' (PyFloat 1) in
              if \<not> is_number retry_delay then Some (Inl TypeError, [])
              else (case fetch n drv (Suc k) u of
                      None \<Rightarrow> None
                    | Some (out, sleeps) \<Rightarrow> Some (out, retry_delay # sleeps)))
           else Some (Inr (handle_fetch_error u e), [])))"

text \<open>
  \<open>fetch_many(urls)\<close>. An empty list is answered at once. Otherwise
  \<open>asyncio.Semaphore(self.max_concurrent)\<close> is created, which raises \<open>ValueError\<close> on a
  negative value; with the value 0 no task ever acquires the semaphore, so \<open>gather\<close>
  waits forever and \<open>fetch_many\<close> does not return (\<open>None\<close>). With a positive value the
  semaphore only limits how many fetches run at once:
  \<open>asyncio.gather(*tasks, return_exceptions=True)\<close> waits for every task and lists
  results and exceptions in the order of the tasks.

  A task is one call of \<open>fetch\<close>. Its retry recursion has no bound of its own, but the
  interpreter has one: a \<open>fetch\<close> that nests more calls than the recursion limit allows
  raises \<open>RecursionError\<close> (a \<open>RuntimeError\<close>), which \<open>gather\<close> hands back like any other
  exception. So every task ends, with a response or with an exception.
\<close>

definition fetch_task :: "nat \<Rightarrow> AsyncDriver \<Rightarrow> string \<Rightarrow> error + FetchResponse" where
  "fetch_task recursion_limit drv u =
     (case fetch recursion_limit drv 0 u of
        None \<Rightarrow> Inl (RuntimeError ''maximum recursion depth exceeded'')
      | Some (out, sleeps) \<Rightarrow> out)"

definition error_response :: "string \<Rightarrow> error \<Rightarrow> FetchResponse" where
  "error_response u e =
     \<lparr>resp_url = u, resp_html = None, resp_status_code = None, resp_headers = Map.empty,
      resp_error = Some (str_of_error e), resp_final_url = None, resp_redirect_chain = []\<rparr>"

definition fetch_many ::
  "nat \<Rightarrow> AsyncDriver \<Rightarrow> string list \<Rightarrow> (error + FetchResponse list) option" where
  "fetch_many recursion_limit drv urls =
     (if urls = [] then Some (Inr [])
      else if max_concurrent drv < 0
        then Some (Inl (ValueError ''Semaphore initial value must be >= 0''))
      else if max_concurrent drv = 0 then None
      else Some (Inr (map (\<lambda>(i, result).
                             (case result of
                                Inl e \<Rightarrow> error_response (urls ! i) e
                              | Inr r \<Rightarrow> r))
                          (enumerate 0 (map (fetch_task recursion_limit drv) urls)))))"

text \<open>No hook of the driver reassigns \<open>ctx.url\<close>.\<close>

definition hooks_keep_url :: "AsyncDriver \<Rightarrow> bool" where
  "hooks_keep_url drv = (\<forall>k stage c. hctx_url (execute_hook drv k stage c) = hctx_url c)"


section \<open>AdaptiveThrottler (application/use\_cases/crawling/adaptive\_throttler.py)\<close>

text \<open>
  Delays, response times and thresholds are Python floats, that is IEEE doubles. A finite
  double is modelled as the real number it denotes; comparison, \<open>min\<close>, \<open>max\<close> and \<open>abs\<close>
  are then exact. The operations that round are parameters, so that nothing proved below
  depends on how they round: \<open>fmul\<close>, \<open>fdiv\<close> and \<open>fsub\<close> are \<open>*\<close>, \<open>/\<close> and \<open>-\<close> on
  floats, \<open>fsum\<close> is the builtin \<open>sum\<close> on a list of floats (a plain left-to-right sum
  up to CPython 3.11, a compensated one from 3.12), and \<open>float_0_001\<close> is the value of
  the literal \<open>0.001\<close>. The quotient of two integers (\<open>error_count / len(...)\<close>) is
  \<open>fdiv\<close> of the two counts, which are small enough to be floats themselves. Infinities
  and NaN are not modelled.

  The two sliding windows are \<open>deque(maxlen=window_size)\<close>: appending to a full deque
  drops its oldest element, and a deque of length zero stays empty. The timestamp of a
  history entry (\<open>datetime.now()\<close>) is left out.
\<close>

record FloatOps =
  fmul :: "real \<Rightarrow> real \<Rightarrow> real"
  fdiv :: "real \<Rightarrow> real \<Rightarrow> real"
  fsub :: "real \<Rightarrow> real \<Rightarrow> real"
  fsum :: "real list \<Rightarrow> real"
  float_0_001 :: real

record ThrottleMetrics =
  total_requests :: nat
  successful_requests :: nat
  failed_requests :: nat
  response_times :: "real list"
  metrics_current_delay :: real
  adjustments_count :: nat

datatype adjustment_reason = High_error_rate real | Fast_response real

record Adjustment =
  old_delay :: real
  new_delay :: real
  reason :: adjustment_reason
  adj_error_rate :: real
  adj_avg_response_time_ms :: real

record AdaptiveThrottler =
  initial_delay :: real
  min_delay :: real
  max_delay :: real
  error_threshold :: real
  fast_response_threshold :: real
  slowdown_factor :: real
  speedup_factor :: real
  window_size :: nat
  adjustment_interval :: int
  current_delay :: real
  recent_response_times :: "real list"
  recent_errors :: "bool list"
  metrics :: ThrottleMetrics
  requests_since_adjustment :: int
  adjustment_history :: "Adjustment list"

definition deque_append :: "nat \<Rightarrow> 'a list \<Rightarrow> 'a \<Rightarrow> 'a list" where
  "deque_append maxlen d x =
     (if maxlen = 0 then []
      else if maxlen \<le> length d then tl d @ [x]
      else d @ [x])"

text \<open>
  \<open>__init__\<close> with all its parameters; it stores them as given and checks none of them.
\<close>

definition AdaptiveThrottler_init ::
  "real \<Rightarrow> real \<Rightarrow> real \<Rightarrow> real \<Rightarrow> real \<Rightarrow> real \<Rightarrow> real \<Rightarrow> nat \<Rightarrow> int \<Rightarrow> AdaptiveThrottler" where
  "AdaptiveThrottler_init initial_delay' min_delay' max_delay' error_threshold'
       fast_response_threshold' slowdown_factor' speedup_factor' window_size'
       adjustment_interval' =
     \<lparr>initial_delay = initial_delay', min_delay = min_delay', max_delay = max_delay',
      error_threshold = error_threshold',
      fast_response_threshold = fast_response_threshold',
      slowdown_factor = slowdown_factor', speedup_factor = speedup_factor',
      window_size = window_size', adjustment_interval = adjustment_interval',
      current_delay = initial_delay', recent_response_times = [], recent_errors = [],
      metrics = \<lparr>total_requests = 0, successful_requests = 0, failed_requests = 0,
                 response_times = [], metrics_current_delay = initial_delay',
                 adjustments_count = 0\<rparr>,
      requests_since_adjustment = 0, adjustment_history = []\<rparr>"

text \<open>
  The defaults of \<open>__init__\<close>: 0.5, 0.1, 5.0, 10.0, 0.5, 1.5, 0.8, 100, 10. The literals
  \<open>0.1\<close> and \<open>0.8\<close> denote the doubles nearest to them.
\<close>

definition double_0_1 :: real where
  "double_0_1 = 3602879701896397 / 2 ^ 55"

definition double_0_8 :: real where
  "double_0_8 = 3602879701896397 / 2 ^ 52"

definition default_throttler :: AdaptiveThrottler where
  "default_throttler = AdaptiveThrottler_init (1/2) double_0_1 5 10 (1/2) (3/2) double_0_8 100 10"

text \<open>The quantities \<open>_adjust_delay\<close> computes over the windows.\<close>

definition error_rate :: "FloatOps \<Rightarrow> AdaptiveThrottler \<Rightarrow> real" where
  "error_rate fl s =
     fmul fl (fdiv fl (real (length (filter (\<lambda>e. e) (recent_errors s))))
                      (real (length (recent_errors s))))
             100"

definition avg_response_time :: "FloatOps \<Rightarrow> AdaptiveThrottler \<Rightarrow> real" where
  "avg_response_time fl s =
     (if recent_response_times s \<noteq> []
      then fdiv fl (fsum fl (recent_response_times s)) (real (length (recent_response_times s)))
      else 0)"

definition adjust_delay :: "FloatOps \<Rightarrow> AdaptiveThrottler \<Rightarrow> AdaptiveThrottler" where
  "adjust_delay fl s =
     (if recent_errors s = [] then s
      else
        (let avg_response_time_sec = fdiv fl (avg_response_time fl s) 1000;
             old = current_delay s;
             (delay1, adjustment) =
               (if error_rate fl s > error_threshold s
                then (fmul fl (current_delay s) (slowdown_factor s),
                      Some (High_error_rate (error_rate fl s)))
                else if recent_response_times s \<noteq> [] \<and>
                        avg_response_time_sec < fast_response_threshold s
                then (fmul fl (current_delay s) (speedup_factor s),
                      Some (Fast_response (avg_response_time fl s)))
                else (current_delay s, None));
             delay2 = max (min_delay s) (min delay1 (max_delay s));
             s1 = s\<lparr>current_delay := delay2\<rparr>
         in (case adjustment of
               None \<Rightarrow> s1
             | Some why \<Rightarrow>
                 if \<bar>fsub fl delay2 old\<bar> > float_0_001 fl
                 then s1\<lparr>metrics := (metrics s1)\<lparr>adjustments_count := adjustments_count (metrics s1) + 1,
                                                 metrics_current_delay := delay2\<rparr>,
                         adjustment_history := adjustment_history s1 @
                           [\<lparr>old_delay = old, new_delay = delay2, reason = why,
                             adj_error_rate = error_rate fl s,
                             adj_avg_response_time_ms = avg_response_time fl s\<rparr>]\<rparr>
                 else s1)))"

text \<open>
  The last four lines of \<open>record_success\<close> and of \<open>record_failure\<close>: the sample is
  counted, and when the count has reached \<open>adjustment_interval\<close> the delay is adjusted
  and the count starts again.
\<close>

definition count_request :: "FloatOps \<Rightarrow> AdaptiveThrottler \<Rightarrow> AdaptiveThrottler" where
  "count_request fl s =
     (if requests_since_adjustment s + 1 \<ge> adjustment_interval s
      then (adjust_delay fl (s\<lparr>requests_since_adjustment := requests_since_adjustment s + 1\<rparr>))
             \<lparr>requests_since_adjustment := 0\<rparr>
      else s\<lparr>requests_since_adjustment := requests_since_adjustment s + 1\<rparr>)"

definition record_success :: "FloatOps \<Rightarrow> AdaptiveThrottler \<Rightarrow> real \<Rightarrow> AdaptiveThrottler" where
  "record_success fl s response_time =
     (let response_time_ms = fmul fl response_time 1000;
          m = (metrics s)\<lparr>total_requests := total_requests (metrics s) + 1,
                          successful_requests := successful_requests (metrics s) + 1,
                          response_times := response_times (metrics s) @ [response_time_ms]\<rparr>
      in count_request fl
           (s\<lparr>metrics := m,
              recent_response_times :=
                deque_append (window_size s) (recent_response_times s) response_time_ms,
              recent_errors := deque_append (window_size s) (recent_errors s) False\<rparr>))"

definition record_failure ::
  "FloatOps \<Rightarrow> AdaptiveThrottler \<Rightarrow> real option \<Rightarrow> AdaptiveThrottler" where
  "record_failure fl s response_time =
     (let m = (metrics s)\<lparr>total_requests := total_requests (metrics s) + 1,
                          failed_requests := failed_requests (metrics s) + 1\<rparr>;
          s1 = (case response_time of
                  None \<Rightarrow> s\<lparr>metrics := m\<rparr>
                | Some t \<Rightarrow>
                    s\<lparr>metrics := m\<lparr>response_times := response_times m @ [fmul fl t 1000]\<rparr>,
                      recent_response_times :=
                        deque_append (window_size s) (recent_response_times s) (fmul fl t 1000)\<rparr>)
      in count_request fl (s1\<lparr>recent_errors := deque_append (window_size s) (recent_errors s) True\<rparr>))"

text \<open>The clamp of the last assignment, \<open>max(min_delay, min(delay, max_delay))\<close>.\<close>

definition clamp_delay :: "AdaptiveThrottler \<Rightarrow> real \<Rightarrow> real" where
  "clamp_delay s d = max (min_delay s) (min d (max_delay s))"

text \<open>
  A caller's sequence of samples, each recorded by \<open>record_success\<close> or by
  \<open>record_failure\<close>; used to state how often the adjustment runs.
\<close>

datatype sample = Succeeded real | Failed "real option"

fun record_sample :: "FloatOps \<Rightarrow> AdaptiveThrottler \<Rightarrow> sample \<Rightarrow> AdaptiveThrottler" where
  "record_sample fl s (Succeeded t) = record_success fl s t"
| "record_sample fl s (Failed t) = record_failure fl s t"

section \<open>NodeMapper (application/dto/mappers/node\_mapper.py)\<close>

text \<open>
  Modelled from the spec: the class \<open>NodeDTO\<close> (application/dto) is not among the
  sources. Per the spec (6) it has the fields node\_id, url, depth, should\_scan,
  can\_create\_edges, scanned, response\_status, metadata, user\_data, content\_hash,
  priority, created\_at and lifecycle\_stage, the last one a string, \<open>"url_stage"\<close> or
  \<open>"html_stage"\<close>; the tests show that its constructor rejects a URL without
  \<open>http://\<close> or \<open>https://\<close> and a lifecycle string other than those two, and accepts
  any content hash.
\<close>

record NodeDTO =
  dto_node_id :: string
  dto_url :: string
  dto_depth :: int
  dto_should_scan :: bool
  dto_can_create_edges :: bool
  dto_scanned :: bool
  dto_response_status :: "int option"
  dto_metadata :: pydict
  dto_user_data :: pydict
  dto_content_hash :: "string option"
  dto_priority :: "int option"
  dto_created_at :: datetime
  dto_lifecycle_stage :: string

definition NodeDTO_init :: "NodeDTO \<Rightarrow> error + NodeDTO" where
  "NodeDTO_init kwargs =
     (if \<not> (take 7 (dto_url kwargs) = ''http://'' \<or> take 8 (dto_url kwargs) = ''https://'')
      then Inl (ValidationError ''url'')
      else if dto_lifecycle_stage kwargs \<noteq> ''url_stage'' \<and>
              dto_lifecycle_stage kwargs \<noteq> ''html_stage''
      then Inl (ValidationError ''lifecycle_stage'')
      else Inr kwargs)"

text \<open>
  The \<open>context\<close> argument of \<open>to_domain\<close>: a dictionary that may hold the three
  dependencies; \<open>context or {}\<close> makes a missing one the empty dictionary.
\<close>

record MapperContext =
  mc_plugin_manager :: "NodePluginManager option"
  mc_tree_parser :: "tree_adapter option"
  mc_hash_strategy :: "HashStrategy option"

definition empty_context :: MapperContext where
  "empty_context = \<lparr>mc_plugin_manager = None, mc_tree_parser = None, mc_hash_strategy = None\<rparr>"

definition to_dto :: "Node \<Rightarrow> error + NodeDTO" where
  "to_dto node =
     (let lifecycle_stage_str = lifecycle_value (lifecycle_stage node)
      in NodeDTO_init
           \<lparr>dto_node_id = node_id node, dto_url = url node, dto_depth = depth node,
            dto_should_scan = should_scan node, dto_can_create_edges = can_create_edges node,
            dto_scanned = scanned node, dto_response_status = response_status node,
            dto_metadata = metadata node, dto_user_data = user_data node,
            dto_content_hash = content_hash node, dto_priority = priority node,
            dto_created_at = created_at node, dto_lifecycle_stage = lifecycle_stage_str\<rparr>)"

definition to_domain :: "PyEnv \<Rightarrow> NodeDTO \<Rightarrow> MapperContext option \<Rightarrow> error + Node" where
  "to_domain env node_dto ctx =
     (let c = (case ctx of None \<Rightarrow> empty_context | Some c' \<Rightarrow> c')
      in (case NodeLifecycle_of (dto_lifecycle_stage node_dto) of
            Inl e \<Rightarrow> Inl e
          | Inr stage \<Rightarrow>
              Node_init env
                \<lparr>url = dto_url node_dto, node_id = dto_node_id node_dto,
                 depth = dto_depth node_dto, should_scan = dto_should_scan node_dto,
                 can_create_edges = dto_can_create_edges node_dto,
                 created_at = dto_created_at node_dto, metadata = dto_metadata node_dto,
                 user_data = dto_user_data node_dto, scanned = dto_scanned node_dto,
                 response_status = dto_response_status node_dto,
                 content_hash = dto_content_hash node_dto, priority = dto_priority node_dto,
                 lifecycle_stage = stage, plugin_manager = mc_plugin_manager c,
                 tree_parser = mc_tree_parser c, hash_strategy = mc_hash_strategy c,
                 hash_determinism_validated = False\<rparr>))"

text \<open>
  What pydantic guarantees of every \<open>Node\<close> object (validation on construction and on
  assignment): its URL passes \<open>validate_url\<close> and its fields meet their constraints.
\<close>

definition is_valid_node :: "PyEnv \<Rightarrow> Node \<Rightarrow> bool" where
  "is_valid_node env n = (validate_url env (url n) = Inr (url n) \<and> field_constraints_ok n)"

section \<open>Example objects\<close>

text \<open>
  A fresh node for \<open>https://example.com\<close>; a plugin that extracts one link; plugins
  that write \<open>user_data["tag"]\<close>; and a manager with the link plugin registered at
  ON\_HTML\_PARSED and two tag plugins at ON\_AFTER\_SCAN, \<open>"a"\<close> first, \<open>"b"\<close> second.
\<close>

definition example_node :: Node where
  "example_node =
     \<lparr>url = ''https://example.com'', node_id = ''n1'', depth = 0, should_scan = True,
      can_create_edges = True, created_at = Datetime 0, metadata = Map.empty,
      user_data = Map.empty, scanned = False, response_status = None, content_hash = None,
      priority = None, lifecycle_stage = URL_STAGE, plugin_manager = None,
      tree_parser = None, hash_strategy = None, hash_determinism_validated = False\<rparr>"

definition link_plugin :: node_plugin where
  "link_plugin n c =
     Inr (c\<lparr>ctx_extracted_links := ctx_extracted_links c @ [''https://example.com/a'']\<rparr>)"

definition tag_plugin :: "string \<Rightarrow> node_plugin" where
  "tag_plugin v n c = Inr (c\<lparr>ctx_user_data := (ctx_user_data c)(''tag'' \<mapsto> PyStr v)\<rparr>)"

definition example_manager :: NodePluginManager where
  "example_manager =
     register (register (register \<lparr>registered = []\<rparr> ON_HTML_PARSED link_plugin)
       ON_AFTER_SCAN (tag_plugin ''a'')) ON_AFTER_SCAN (tag_plugin ''b'')"

text \<open>The same node after a scan: at HTML\_STAGE, with the manager still attached.\<close>

definition processed_node :: Node where
  "processed_node =
     example_node\<lparr>lifecycle_stage := HTML_STAGE, plugin_manager := Some example_manager\<rparr>"

text \<open>
  Hash strategies: one that always answers the same valid digest, and one whose
  answers alternate between two valid digests; the processed node with each attached.
\<close>

definition digest_a :: string where
  "digest_a = replicate 64 (CHR ''a'')"

definition digest_b :: string where
  "digest_b = replicate 64 (CHR ''b'')"

definition constant_strategy :: HashStrategy where
  "constant_strategy = HashStrategy (\<lambda>k n. PyStr digest_a) 0"

definition alternating_strategy :: HashStrategy where
  "alternating_strategy =
     HashStrategy (\<lambda>k n. if even k then PyStr digest_a else PyStr digest_b) 0"

definition hashed_node :: Node where
  "hashed_node = processed_node\<lparr>hash_strategy := Some constant_strategy\<rparr>"

definition unstable_node :: Node where
  "unstable_node = processed_node\<lparr>hash_strategy := Some alternating_strategy\<rparr>"

text \<open>The fresh node with the manager attached, before its scan.\<close>

definition armed_node :: Node where
  "armed_node = example_node\<lparr>plugin_manager := Some example_manager\<rparr>"

text \<open>
  A response with an error that is present but empty, a status and a body; and a driver
  that answers every fetch with it.
\<close>

definition empty_error_response :: FetchResponse where
  "empty_error_response =
     \<lparr>resp_url = ''https://example.com'', resp_html = Some ''<a href=x>'',
      resp_status_code = Some 200, resp_headers = Map.empty, resp_error = Some [],
      resp_final_url = None, resp_redirect_chain = []\<rparr>"

definition empty_error_driver :: driver_fetch where
  "empty_error_driver u = Inr (Some empty_error_response)"

text \<open>
  Drivers. A plugin that asks for a retry with a given delay after every failed
  request; a network that always times out; a network that times out a given number of
  times and then answers; a plugin that reassigns \<open>ctx.url\<close> and cancels the request.
\<close>

definition retry_hook :: "pyval \<Rightarrow> nat \<Rightarrow> AsyncHTTPStage \<Rightarrow> AsyncHTTPContext \<Rightarrow> AsyncHTTPContext" where
  "retry_hook delay k stage c =
     (if stage = REQUEST_FAILED
      then c\<lparr>hctx_data := (hctx_data c)(''should_retry'' \<mapsto> PyBool True, ''retry_delay'' \<mapsto> delay)\<rparr>
      else c)"

definition always_retry_driver :: AsyncDriver where
  "always_retry_driver =
     \<lparr>execute_hook = retry_hook (PyFloat (1/2)),
      http_get = (\<lambda>k u headers params. Inl TimeoutError),
      max_concurrent = 24\<rparr>"

definition ok_response :: "string \<Rightarrow> HttpResponse" where
  "ok_response u =
     \<lparr>hr_status = 200, hr_headers = Map.empty, hr_url = u, hr_history = [],
      hr_text = Inr ''<html></html>''\<rparr>"

definition ok_fetch_response :: "string \<Rightarrow> FetchResponse" where
  "ok_fetch_response u =
     \<lparr>resp_url = u, resp_html = Some ''<html></html>'', resp_status_code = Some 200,
      resp_headers = Map.empty, resp_error = None, resp_final_url = None,
      resp_redirect_chain = []\<rparr>"

definition flaky_driver :: "nat \<Rightarrow> AsyncDriver" where
  "flaky_driver failures =
     \<lparr>execute_hook = retry_hook (PyFloat (1/2)),
      http_get = (\<lambda>k u headers params.
                    if k < failures then Inl TimeoutError else Inr (ok_response u)),
      max_concurrent = 24\<rparr>"

definition impatient_driver :: AsyncDriver where
  "impatient_driver =
     \<lparr>execute_hook = retry_hook (PyStr ''soon''),
      http_get = (\<lambda>k u headers params. Inl TimeoutError),
      max_concurrent = 24\<rparr>"

definition rewriting_hook :: "nat \<Rightarrow> AsyncHTTPStage \<Rightarrow> AsyncHTTPContext \<Rightarrow> AsyncHTTPContext" where
  "rewriting_hook k stage c =
     (if stage = PREPARING_REQUEST
      then c\<lparr>hctx_url := ''https://elsewhere.example'', hctx_cancelled := True\<rparr>
      else c)"

definition rewriting_driver :: AsyncDriver where
  "rewriting_driver =
     \<lparr>execute_hook = rewriting_hook,
      http_get = (\<lambda>k u headers params. Inl TimeoutError),
      max_concurrent = 24\<rparr>"



text \<open>
  Arithmetic without rounding error, for evaluating examples. The examples are chosen so
  that every operation in them has a result that is itself a double, on which the
  operations on doubles agree with the exact ones.
\<close>

definition exact_ops :: FloatOps where
  "exact_ops = \<lparr>fmul = (\<lambda>a b. a * b), fdiv = (\<lambda>a b. a / b), fsub = (\<lambda>a b. a - b),
                fsum = sum_list, float_0_001 = 1152921504606847 / 2 ^ 60\<rparr>"

text \<open>
  Throttlers with the default configuration, nine samples after the last adjustment:
  one whose window holds a failure, and one whose window holds a fast success only.
\<close>

definition failing_window :: AdaptiveThrottler where
  "failing_window =
     default_throttler\<lparr>recent_errors := [True, False, False],
                        recent_response_times := [250, 250],
                        requests_since_adjustment := 9\<rparr>"

definition fast_window :: AdaptiveThrottler where
  "fast_window =
     default_throttler\<lparr>recent_errors := [False],
                        recent_response_times := [250],
                        requests_since_adjustment := 9\<rparr>"

text \<open>
  Two throttlers as the constructor accepts them: one with \<open>min_delay\<close> above
  \<open>max_delay\<close>, one with a window of size zero and an initial delay above \<open>max_delay\<close>;
  both adjust on every sample.
\<close>

definition inverted_throttler :: AdaptiveThrottler where
  "inverted_throttler = AdaptiveThrottler_init (1/2) 5 1 10 (1/2) (3/2) (1/2) 100 1"

definition windowless_throttler :: AdaptiveThrottler where
  "windowless_throttler = AdaptiveThrottler_init 10 (1/8) 5 10 (1/2) (3/2) (1/2) 0 1"

text \<open>A scanned node with data in every optional field and a plugin manager attached.\<close>

definition stored_node :: Node where
  "stored_node =
     example_node\<lparr>metadata := [''title'' \<mapsto> PyStr ''Example''],
                   user_data := [''tag'' \<mapsto> PyStr ''b''], scanned := True,
                   response_status := Some 200, content_hash := Some digest_a,
                   priority := Some 5, lifecycle_stage := HTML_STAGE,
                   plugin_manager := Some example_manager\<rparr>"

subsection \<open>Auxiliary notions for the analysis of \<open>normalize_url\<close>\<close>


definition last_segment :: "string \<Rightarrow> string" where
  "last_segment p = rev (takeWhile (\<lambda>c. c \<noteq> CHR ''/'') (rev p))"














section \<open>Verified properties\<close>

subsection \<open>FetchResponse.is_redirect\<close>

text \<open>
  C7 (as stated): \<open>is_redirect\<close> holds iff \<open>final_url\<close> differs from \<open>url\<close>, in
  particular for a response whose \<open>final_url\<close> is nil while \<open>url\<close> is set. The
  code answers False on a nil \<open>final_url\<close>, as its docstring shows: the response
  below has \<open>final_url = None\<close>, which differs from its \<open>url\<close>, and is not a redirect.
\<close>

theorem is_redirect_nil_final_url_counterexample:
  "resp_final_url response_without_final_url \<noteq> Some (resp_url response_without_final_url)
   \<and> \<not> is_redirect response_without_final_url"
  by (simp add: response_without_final_url_def is_redirect_def)

text \<open>
  C7 (amended): \<open>is_redirect\<close> holds iff \<open>final_url\<close> is present and differs from
  \<open>url\<close>; a response without a \<open>final_url\<close> is never a redirect.
\<close>

theorem is_redirect_iff:
  "is_redirect r = (\<exists>f. resp_final_url r = Some f \<and> f \<noteq> resp_url r)"
  by (cases "resp_final_url r") (auto simp: is_redirect_def)

subsection \<open>Node.process\_html on a node that is already processed\<close>

lemma node_data_simps [simp]:
  "node_data (self\<lparr>hash_strategy := hs\<rparr>) = node_data self"
  "node_data (self\<lparr>hash_determinism_validated := b\<rparr>) = node_data self"
  "node_data (self\<lparr>plugin_manager := pm\<rparr>) = node_data self"
  "node_data (self\<lparr>tree_parser := tp\<rparr>) = node_data self"
  by (simp_all add: node_data_def NodeData.truncate_def)

text \<open>
  C1: if a node is already at HTML\_STAGE, a further call of \<open>process_html\<close> does not
  raise, returns the empty link list and leaves the node as it was: every field,
  among them \<open>lifecycle_stage\<close>, \<open>metadata\<close>, \<open>user_data\<close>, \<open>content_hash\<close> and \<open>scanned\<close>,
  is unchanged, whatever plugins are registered (none of them runs).
\<close>

theorem process_html_at_html_stage:
  "lifecycle_stage self = HTML_STAGE \<Longrightarrow> process_html env self html = (Inr [], self)"
  by (simp add: process_html_def)

theorem process_html_at_html_stage_witness:
  "lifecycle_stage processed_node = HTML_STAGE \<and>
   process_html example_env processed_node ''<a href=x>'' = (Inr [], processed_node)"
  using process_html_at_html_stage [of processed_node example_env "''<a href=x>''"]
  by (simp add: processed_node_def)

subsection \<open>Node.get\_content\_hash with a custom strategy\<close>

lemma get_content_hash_invalid:
  assumes "lifecycle_stage self = HTML_STAGE" "hash_strategy self = Some hs"
    "\<not> is_sha256_digest (compute hs (calls hs) (node_data self))"
  shows "\<exists>m. fst (get_content_hash env self) = Inl (ValueError m)"
  using assms
  by (auto simp: get_content_hash_def compute_hash_def is_sha256_digest_def split: pyval.splits)

lemma get_content_hash_first_use:
  assumes "lifecycle_stage self = HTML_STAGE" "hash_strategy self = Some hs"
    "compute hs (calls hs) (node_data self) = PyStr h" "sha256_hash_pattern_match h"
    "\<not> hash_determinism_validated self"
  shows "get_content_hash env self =
     (if compute hs (Suc (calls hs)) (node_data self) = PyStr h
      then (Inr h, self\<lparr>hash_strategy := Some (HashStrategy (compute hs) (calls hs + 2)),
                        hash_determinism_validated := True\<rparr>)
      else (Inl (ValueError ''Hash strategy is NOT DETERMINISTIC!''),
            self\<lparr>hash_strategy := Some (HashStrategy (compute hs) (calls hs + 2))\<rparr>))"
  using assms
  by (auto simp: get_content_hash_def compute_hash_def validate_hash_strategy_deterministic_def)

lemma get_content_hash_later_use:
  assumes "lifecycle_stage self = HTML_STAGE" "hash_strategy self = Some hs"
    "compute hs (calls hs) (node_data self) = PyStr h" "sha256_hash_pattern_match h"
    "hash_determinism_validated self"
  shows "get_content_hash env self =
     (Inr h, self\<lparr>hash_strategy := Some (HashStrategy (compute hs) (calls hs + 1))\<rparr>)"
  using assms
  by (auto simp: get_content_hash_def compute_hash_def)

text \<open>
  C5: for a node at HTML\_STAGE with a custom hash strategy, where \<open>first\<close> and \<open>second\<close>
  are what the strategy answers on its next two invocations on this node:
  \<^item> \<open>get_content_hash\<close> raises \<open>ValueError\<close> whenever \<open>first\<close> is anything but a string of
    64 lowercase hexadecimal characters;
  \<^item> on the first use (the node not yet marked as validated) with a valid \<open>first\<close>, the
    strategy is invoked twice on the same node, and the call raises \<open>ValueError\<close> if the
    two results differ and returns the digest if they agree;
  \<^item> on a later use a valid result is returned after a single invocation.
\<close>

theorem get_content_hash_custom_strategy:
  assumes "lifecycle_stage self = HTML_STAGE" and "hash_strategy self = Some hs"
  defines "first \<equiv> compute hs (calls hs) (node_data self)"
      and "second \<equiv> compute hs (Suc (calls hs)) (node_data self)"
  shows "(\<not> is_sha256_digest first \<longrightarrow>
            (\<exists>m. fst (get_content_hash env self) = Inl (ValueError m)))
       \<and> (first = PyStr h \<and> sha256_hash_pattern_match h \<and> \<not> hash_determinism_validated self \<longrightarrow>
            strategy_calls (snd (get_content_hash env self)) = Some (calls hs + 2)
            \<and> (if second = first then fst (get_content_hash env self) = Inr h
                else (\<exists>m. fst (get_content_hash env self) = Inl (ValueError m))))
       \<and> (first = PyStr h \<and> sha256_hash_pattern_match h \<and> hash_determinism_validated self \<longrightarrow>
            strategy_calls (snd (get_content_hash env self)) = Some (calls hs + 1)
            \<and> fst (get_content_hash env self) = Inr h)"
proof (intro conjI impI)
  assume "\<not> is_sha256_digest first"
  then show "\<exists>m. fst (get_content_hash env self) = Inl (ValueError m)"
    using assms(1,2) unfolding first_def by (rule get_content_hash_invalid[rotated 2])
next
  assume a: "first = PyStr h \<and> sha256_hash_pattern_match h \<and> \<not> hash_determinism_validated self"
  note eq = get_content_hash_first_use [OF assms(1,2), of h env]
  from a show "strategy_calls (snd (get_content_hash env self)) = Some (calls hs + 2)"
    using eq by (simp add: first_def strategy_calls_def)
  from a show "if second = first then fst (get_content_hash env self) = Inr h
      else (\<exists>m. fst (get_content_hash env self) = Inl (ValueError m))"
    using eq by (simp add: first_def second_def)
next
  assume a: "first = PyStr h \<and> sha256_hash_pattern_match h \<and> hash_determinism_validated self"
  note eq = get_content_hash_later_use [OF assms(1,2), of h env]
  from a show "strategy_calls (snd (get_content_hash env self)) = Some (calls hs + 1)"
    using eq by (simp add: first_def strategy_calls_def)
  from a show "fst (get_content_hash env self) = Inr h"
    using eq by (simp add: first_def)
qed

lemma digest_a_valid: "sha256_hash_pattern_match digest_a"
  by (simp add: sha256_hash_pattern_match_def digest_a_def list_all_iff)

theorem get_content_hash_custom_strategy_witness:
  "lifecycle_stage hashed_node = HTML_STAGE \<and> hash_strategy hashed_node = Some constant_strategy
   \<and> \<not> hash_determinism_validated hashed_node
   \<and> strategy_calls (snd (get_content_hash example_env hashed_node)) = Some 2
   \<and> fst (get_content_hash example_env hashed_node) = Inr digest_a"
  using get_content_hash_custom_strategy [where self = hashed_node and hs = constant_strategy
      and h = digest_a and env = example_env]
    digest_a_valid
  by (simp add: hashed_node_def processed_node_def example_node_def constant_strategy_def)

text \<open>A strategy whose second answer differs from its first is rejected on first use.\<close>

lemma get_content_hash_alternating_strategy:
  "fst (get_content_hash example_env unstable_node)
     = Inl (ValueError ''Hash strategy is NOT DETERMINISTIC!'')"
proof -
  have neq: "digest_a \<noteq> digest_b"
    by (simp add: digest_a_def digest_b_def)
  show ?thesis
    using get_content_hash_first_use [where self = unstable_node and hs = alternating_strategy
        and h = digest_a and env = example_env] digest_a_valid neq
    by (simp add: unstable_node_def processed_node_def example_node_def alternating_strategy_def)
qed

subsection \<open>The plugin pipeline of process\_html\<close>


lemma parse_html_sync_lifecycle [simp]:
  "parse_html_sync env (self\<lparr>lifecycle_stage := st\<rparr>) html = parse_html_sync env self html"
  by (simp add: parse_html_sync_def)

lemma scan_context_lifecycle [simp]:
  "scan_context (self\<lparr>lifecycle_stage := st\<rparr>) html tree parser = scan_context self html tree parser"
  by (simp add: scan_context_def)

lemma compute_content_hash_fields [simp]:
  "metadata (compute_content_hash env self) = metadata self"
  "user_data (compute_content_hash env self) = user_data self"
  "lifecycle_stage (compute_content_hash env self) = lifecycle_stage self"
  "scanned (compute_content_hash env self) = scanned self"
  "response_status (compute_content_hash env self) = response_status self"
  "plugin_manager (compute_content_hash env self) = plugin_manager self"
  by (auto simp: compute_content_hash_def get_content_hash_def compute_hash_def
      validate_hash_strategy_deterministic_def Let_def
      split: option.splits pyval.splits prod.splits sum.splits if_splits)

lemma node_data_update_from_context:
  "node_data (update_from_context self c) =
     (node_data self)\<lparr>metadata := ctx_metadata c, user_data := user_data self ++ ctx_user_data c\<rparr>"
  by (simp add: node_data_def update_from_context_def NodeData.truncate_def)

lemma node_data_field_updates [simp]:
  "node_data (self\<lparr>metadata := m\<rparr>) = (node_data self)\<lparr>metadata := m\<rparr>"
  "node_data (self\<lparr>user_data := u\<rparr>) = (node_data self)\<lparr>user_data := u\<rparr>"
  "node_data (self\<lparr>lifecycle_stage := st\<rparr>) = (node_data self)\<lparr>lifecycle_stage := st\<rparr>"
  "node_data (self\<lparr>content_hash := h\<rparr>) = (node_data self)\<lparr>content_hash := h\<rparr>"
  "node_data (self\<lparr>scanned := b\<rparr>) = (node_data self)\<lparr>scanned := b\<rparr>"
  "node_data (self\<lparr>response_status := rs\<rparr>) = (node_data self)\<lparr>response_status := rs\<rparr>"
  by (simp_all add: node_data_def NodeData.truncate_def)

lemma node_data_fields [simp]:
  "user_data (node_data self) = user_data self"
  "metadata (node_data self) = metadata self"
  "lifecycle_stage (node_data self) = lifecycle_stage self"
  by (simp_all add: node_data_def NodeData.truncate_def)








subsection \<open>NodeScanner.scan\_node on a failed fetch\<close>

text \<open>
  When the driver raises, returns \<open>None\<close>, or returns a response with a non-empty
  error, \<open>scan_node\<close> returns no links and changes nothing on the node but
  \<open>scanned\<close>; in particular \<open>response_status\<close> stays as it was.
\<close>

lemma scan_node_fetch_failure:
  assumes "fetch_failed (driver (url node))"
  shows "fst (fst (scan_node env driver node)) = []"
    and "snd (scan_node env driver node) = node\<lparr>scanned := True\<rparr>"
  using assms
  by (auto simp: scan_node_def fetch_failed_def mark_as_scanned_def split: sum.splits option.splits)

text \<open>
  C4 (the code at the failing input): \<open>scan_node\<close> tests \<open>result.error\<close> for truthiness,
  so a response whose \<open>error\<close> is the empty string (non-nil) is handled as a success:
  the status is stored on the node and the HTML is processed, links included.
\<close>

theorem scan_node_empty_error_string:
  "resp_error empty_error_response \<noteq> None \<and>
   fst (fst (scan_node example_env empty_error_driver armed_node)) = [''https://example.com/a''] \<and>
   response_status (snd (scan_node example_env empty_error_driver armed_node)) = Some 200"
  apply (simp add: scan_node_def empty_error_driver_def empty_error_response_def truthy_str_def
     armed_node_def example_node_def mark_as_scanned_def)
  apply (simp add: process_html_def parse_html_sync_def example_env_def execute_plugins_def
      execute_def Let_def scan_context_def example_manager_def register_def plugins_of_def
      run_plugin_def link_plugin_def tag_plugin_def cleanup_memory_def update_from_context_def
      compute_content_hash_def get_content_hash_def mark_as_scanned_def)
  done

subsection \<open>AsyncDriver.fetch: retries asked for by a plugin\<close>

lemma attempt_always_retry:
  "attempt always_retry_driver k u = Excepted (new_http_context u) TimeoutError"
  by (simp add: attempt_def always_retry_driver_def retry_hook_def new_http_context_def)

text \<open>
  C2 (the code at the failing input): with a plugin that sets \<open>should_retry\<close> after every
  failed request and a URL whose request always fails, \<open>fetch\<close> has not returned after
  any number \<open>n\<close> of attempts: each attempt ends in another sleep and another recursive
  call, and no retry counter or configured maximum is consulted.
\<close>

theorem fetch_always_retry_never_returns:
  "fetch n always_retry_driver k u = None"
proof (induction n arbitrary: k)
  case 0
  then show ?case by simp
next
  case (Suc n)
  have "truthy (dict_get (hctx_data (execute_hook always_retry_driver k REQUEST_FAILED
          ((new_http_context u)\<lparr>hctx_error := Some (str_of_error TimeoutError)\<rparr>)))
          ''should_retry'' (PyBool False))"
    by (simp add: always_retry_driver_def retry_hook_def dict_get_def)
  moreover have "is_number (dict_get (hctx_data (execute_hook always_retry_driver k REQUEST_FAILED
          ((new_http_context u)\<lparr>hctx_error := Some (str_of_error TimeoutError)\<rparr>)))
          ''retry_delay'' (PyFloat 1))"
    by (simp add: always_retry_driver_def retry_hook_def dict_get_def is_number_def)
  ultimately show ?case
    using Suc.IH [of "Suc k"] by (simp add: attempt_always_retry Let_def)
qed

text \<open>
  The number of retries is whatever the plugin and the network make it: when the request
  fails \<open>m\<close> times before it succeeds, \<open>fetch\<close> sleeps for the plugin's
  \<open>retry_delay\<close> and retries exactly \<open>m\<close> times, for every \<open>m\<close>.
\<close>

lemma fetch_flaky:
  "k \<le> m \<Longrightarrow> fetch (Suc (m - k)) (flaky_driver m) k u
     = Some (Inr (ok_fetch_response u), replicate (m - k) (PyFloat (1/2)))"
proof (induction "m - k" arbitrary: k)
  case 0
  then have "k = m" by simp
  then show ?case
    by (simp add: attempt_def flaky_driver_def retry_hook_def new_http_context_def ok_response_def
        complete_request_def ok_fetch_response_def Let_def)
next
  case (Suc d)
  then have lt: "k < m" and d: "d = m - Suc k" and le: "Suc k \<le> m" by simp_all
  have att: "attempt (flaky_driver m) k u = Excepted (new_http_context u) TimeoutError"
    using lt by (simp add: attempt_def flaky_driver_def retry_hook_def new_http_context_def)
  have hook: "execute_hook (flaky_driver m) k REQUEST_FAILED c
     = c\<lparr>hctx_data := (hctx_data c)(''should_retry'' \<mapsto> PyBool True, ''retry_delay'' \<mapsto> PyFloat (1/2))\<rparr>" for c
    by (simp add: flaky_driver_def retry_hook_def)
  have "m - k = Suc (m - Suc k)" using lt by simp
  then show ?case
    using Suc.hyps(1) [OF d le] 
    by (simp add: att hook dict_get_def is_number_def Let_def)
qed

subsection \<open>AsyncDriver.fetch\_many\<close>







text \<open>
  Retries that end are invisible in the result, and an exception of a single fetch
  becomes a response with a non-nil error.
\<close>

lemma fetch_many_flaky:
  "fetch_many (Suc (Suc 0)) (flaky_driver (Suc 0)) [''https://a.example'', ''https://b.example'']
     = Some (Inr [ok_fetch_response ''https://a.example'', ok_fetch_response ''https://b.example''])"
proof -
  have f: "fetch (Suc (Suc 0)) (flaky_driver (Suc 0)) 0 u
      = Some (Inr (ok_fetch_response u), [PyFloat (1/2)])" for u
    using fetch_flaky [of 0 "Suc 0" u] by simp
  have task: "fetch_task (Suc (Suc 0)) (flaky_driver (Suc 0)) u = Inr (ok_fetch_response u)" for u
    unfolding fetch_task_def f by simp
  have m: "max_concurrent (flaky_driver (Suc 0)) = 24" by (simp add: flaky_driver_def)
  show ?thesis
    by (simp add: fetch_many_def task m enumerate_eq_zip)
qed

lemma fetch_many_converts_exception:
  "fetch 1 impatient_driver 0 ''https://example.com'' = Some (Inl TypeError, []) \<and>
   fetch_many 1 impatient_driver [''https://example.com'']
     = Some (Inr [error_response ''https://example.com'' TypeError])"
  by (simp add: fetch_many_def fetch_task_def impatient_driver_def retry_hook_def attempt_def
      new_http_context_def dict_get_def is_number_def enumerate_eq_zip)

text \<open>
  The URL of a cancellation response. The request context is not among the sources. If
  no plugin reassigns \<open>ctx.url\<close>, every response carries the requested URL; a plugin that
  does reassign it before cancelling gets its own URL back.
\<close>

lemma fetch_task_keeps_url:
  assumes "hooks_keep_url drv" "fetch_task n drv u = Inr r"
  shows "resp_url r = u"
proof -
  have keep: "hctx_url (execute_hook drv k stage c) = hctx_url c" for k stage c
    using assms(1) by (simp add: hooks_keep_url_def)
  have att: "resp_url r' = u" if "attempt drv k u = Returned r'" for k r'
    using that
    by (auto simp: attempt_def Let_def keep create_cancelled_response_def new_http_context_def
        complete_request_def split: if_splits sum.splits)
  have "resp_url r' = u" if "fetch m drv k u = Some (Inr r', sleeps)" for m k r' sleeps
    using that
  proof (induction m arbitrary: k sleeps)
    case 0
    then show ?case by simp
  next
    case (Suc m)
    show ?case
    proof (cases "attempt drv k u")
      case (Returned r'')
      with Suc.prems have "r'' = r'" by simp
      with Returned show ?thesis using att by simp
    next
      case (Excepted c e)
      with Suc.prems Suc.IH show ?thesis
        by (auto simp: Let_def handle_fetch_error_def split: if_splits option.splits prod.splits)
    qed
  qed
  then show ?thesis
    using assms(2) by (auto simp: fetch_task_def split: option.splits prod.splits)
qed

lemma fetch_many_cancelled_after_rewrite:
  "fetch_many 1 rewriting_driver [''https://example.com'']
     = Some (Inr [create_cancelled_response
          ((new_http_context ''https://elsewhere.example'')\<lparr>hctx_cancelled := True\<rparr>)])"
  by (simp add: fetch_many_def fetch_task_def rewriting_driver_def rewriting_hook_def attempt_def
      new_http_context_def create_cancelled_response_def enumerate_eq_zip)

subsection \<open>AdaptiveThrottler: the adjustment step\<close>

lemma adjust_delay_current_delay:
  assumes "recent_errors s \<noteq> []"
  shows "current_delay (adjust_delay fl s) = clamp_delay s
           (if error_rate fl s > error_threshold s then fmul fl (current_delay s) (slowdown_factor s)
            else if recent_response_times s \<noteq> [] \<and>
                    fdiv fl (avg_response_time fl s) 1000 < fast_response_threshold s
              then fmul fl (current_delay s) (speedup_factor s)
            else current_delay s)"
  using assms
  by (simp add: adjust_delay_def clamp_delay_def Let_def)

lemma clamp_delay_range:
  "min_delay s \<le> max_delay s \<Longrightarrow> min_delay s \<le> clamp_delay s d \<and> clamp_delay s d \<le> max_delay s"
  by (simp add: clamp_delay_def)

lemma adjust_delay_keeps [simp]:
  "min_delay (adjust_delay fl s) = min_delay s"
  "max_delay (adjust_delay fl s) = max_delay s"
  "recent_errors (adjust_delay fl s) = recent_errors s"
  "recent_response_times (adjust_delay fl s) = recent_response_times s"
  "requests_since_adjustment (adjust_delay fl s) = requests_since_adjustment s"
  "adjustment_interval (adjust_delay fl s) = adjustment_interval s"
  by (simp_all add: adjust_delay_def Let_def split: prod.splits option.splits)

lemma deque_append_nonempty: "0 < maxlen \<Longrightarrow> deque_append maxlen d x \<noteq> []"
  by (simp add: deque_append_def)

lemma error_rate_window:
  "recent_errors a = recent_errors b \<Longrightarrow> error_rate fl a = error_rate fl b"
  by (simp add: error_rate_def)

lemma avg_response_time_window:
  "recent_response_times a = recent_response_times b \<Longrightarrow>
   avg_response_time fl a = avg_response_time fl b"
  by (simp add: avg_response_time_def)

text \<open>
  What counting a sample does to a throttler whose window is not empty. The windows are
  not touched, so the rates can be read off the result.
\<close>

lemma count_request_rule:
  fixes fl :: FloatOps
  assumes ne: "recent_errors s \<noteq> []" and range: "min_delay s \<le> max_delay s"
  defines "s' \<equiv> count_request fl s"
  shows "recent_errors s' = recent_errors s"
    and "recent_response_times s' = recent_response_times s"
    and "requests_since_adjustment s + 1 < adjustment_interval s \<Longrightarrow>
         requests_since_adjustment s' = requests_since_adjustment s + 1 \<and>
         current_delay s' = current_delay s"
    and "adjustment_interval s \<le> requests_since_adjustment s + 1 \<Longrightarrow>
         requests_since_adjustment s' = 0 \<and>
         current_delay s' = clamp_delay s
           (if error_rate fl s' > error_threshold s then fmul fl (current_delay s) (slowdown_factor s)
            else if recent_response_times s' \<noteq> [] \<and>
                    fdiv fl (avg_response_time fl s') 1000 < fast_response_threshold s
              then fmul fl (current_delay s) (speedup_factor s)
            else current_delay s) \<and>
         min_delay s \<le> current_delay s' \<and> current_delay s' \<le> max_delay s"
proof -
  let ?s1 = "s\<lparr>requests_since_adjustment := requests_since_adjustment s + 1\<rparr>"
  show w1: "recent_errors s' = recent_errors s"
    and w2: "recent_response_times s' = recent_response_times s"
    by (simp_all add: s'_def count_request_def)
  show "requests_since_adjustment s' = requests_since_adjustment s + 1 \<and>
        current_delay s' = current_delay s"
    if "requests_since_adjustment s + 1 < adjustment_interval s"
    using that by (simp add: s'_def count_request_def)
  show "requests_since_adjustment s' = 0 \<and>
         current_delay s' = clamp_delay s
           (if error_rate fl s' > error_threshold s then fmul fl (current_delay s) (slowdown_factor s)
            else if recent_response_times s' \<noteq> [] \<and>
                    fdiv fl (avg_response_time fl s') 1000 < fast_response_threshold s
              then fmul fl (current_delay s) (speedup_factor s)
            else current_delay s) \<and>
         min_delay s \<le> current_delay s' \<and> current_delay s' \<le> max_delay s"
    if due: "adjustment_interval s \<le> requests_since_adjustment s + 1"
  proof -
    have eq: "s' = (adjust_delay fl ?s1)\<lparr>requests_since_adjustment := 0\<rparr>"
      using due by (simp add: s'_def count_request_def)
    have ne1: "recent_errors ?s1 \<noteq> []" using ne by simp
    have er: "error_rate fl s' = error_rate fl ?s1"
      by (rule error_rate_window) (simp add: eq)
    have av: "avg_response_time fl s' = avg_response_time fl ?s1"
      by (rule avg_response_time_window) (simp add: eq)
    have cl: "clamp_delay ?s1 = clamp_delay s" by (rule ext) (simp add: clamp_delay_def)
    have cur: "current_delay s' = current_delay (adjust_delay fl ?s1)" by (simp add: eq)
    have "current_delay s' = clamp_delay s
           (if error_rate fl s' > error_threshold s then fmul fl (current_delay s) (slowdown_factor s)
            else if recent_response_times s' \<noteq> [] \<and>
                    fdiv fl (avg_response_time fl s') 1000 < fast_response_threshold s
              then fmul fl (current_delay s) (speedup_factor s)
            else current_delay s)"
      unfolding cur adjust_delay_current_delay [OF ne1] er av w2 cl by simp
    moreover from this have "min_delay s \<le> current_delay s' \<and> current_delay s' \<le> max_delay s"
      using clamp_delay_range [OF range] by simp
    moreover have "requests_since_adjustment s' = 0" by (simp add: eq)
    ultimately show ?thesis by simp
  qed
qed

text \<open>
  C8 (as stated): after every adjustment step the delay lies in \<open>[min_delay, max_delay]\<close>.
  The constructor checks none of its arguments. With \<open>min_delay = 5\<close> above
  \<open>max_delay = 1\<close> a step over one fast success ends at the delay 5; and with
  \<open>window_size = 0\<close> the windows stay empty, the step returns at once, and the delay stays
  at the initial 10, above \<open>max_delay = 5\<close>.
\<close>

theorem adjust_delay_out_of_range_counterexample:
  "current_delay (record_success exact_ops inverted_throttler (1/4)) = 5 \<and>
   max_delay inverted_throttler = 1 \<and>
   current_delay (record_failure exact_ops windowless_throttler None) = 10 \<and>
   max_delay windowless_throttler = 5"
  by (simp add: record_success_def record_failure_def count_request_def adjust_delay_def
      error_rate_def avg_response_time_def deque_append_def exact_ops_def
      inverted_throttler_def windowless_throttler_def AdaptiveThrottler_init_def Let_def)

text \<open>
  C8 (amended): for a throttler with \<open>window_size\<close> at least 1 and \<open>min_delay \<le> max_delay\<close>,
  let \<open>s'\<close> be the throttler after \<open>record_success\<close> or \<open>record_failure\<close> has recorded a
  sample on \<open>s\<close>. The adjustment step runs when this sample brings the number of samples
  recorded since the last step to \<open>adjustment_interval\<close> (or beyond), and the count then
  starts again at 0; any other sample is only counted and leaves the delay alone. The
  step sets the delay to the clamped value of: the delay times the slowdown factor if the
  error rate over the window exceeds the error threshold; otherwise the delay times the
  speedup factor if the window holds response times and their mean is below the
  fast-response threshold; otherwise the delay itself. The error rule is tested first, so
  it wins when both apply, and the delay afterwards lies in \<open>[min_delay, max_delay]\<close>.
  The step does not change the windows, so the rates over the window at the time of the
  step are the rates of \<open>s'\<close>; rates and products are the floating-point ones the code
  computes. The defaults are a threshold of 10 percent, 0.5 s, the factors 1.5 and 0.8,
  and the range 0.1 s to 5 s.
\<close>

theorem record_adjusts_delay:
  assumes "0 < window_size s" and "min_delay s \<le> max_delay s"
    and "s' = record_success fl s t \<or> s' = record_failure fl s rt"
  shows "(requests_since_adjustment s + 1 < adjustment_interval s \<longrightarrow>
            requests_since_adjustment s' = requests_since_adjustment s + 1 \<and>
            current_delay s' = current_delay s) \<and>
         (adjustment_interval s \<le> requests_since_adjustment s + 1 \<longrightarrow>
            requests_since_adjustment s' = 0 \<and>
            current_delay s' = clamp_delay s
              (if error_rate fl s' > error_threshold s
               then fmul fl (current_delay s) (slowdown_factor s)
               else if recent_response_times s' \<noteq> [] \<and>
                       fdiv fl (avg_response_time fl s') 1000 < fast_response_threshold s
                 then fmul fl (current_delay s) (speedup_factor s)
               else current_delay s) \<and>
            min_delay s \<le> current_delay s' \<and> current_delay s' \<le> max_delay s)"
proof -
  from assms(3) obtain s1 where s': "s' = count_request fl s1"
    and ne: "recent_errors s1 \<noteq> []"
    and same: "min_delay s1 = min_delay s" "max_delay s1 = max_delay s"
      "error_threshold s1 = error_threshold s"
      "fast_response_threshold s1 = fast_response_threshold s"
      "slowdown_factor s1 = slowdown_factor s" "speedup_factor s1 = speedup_factor s"
      "current_delay s1 = current_delay s"
      "requests_since_adjustment s1 = requests_since_adjustment s"
      "adjustment_interval s1 = adjustment_interval s"
  proof
    assume a: "s' = record_success fl s t"
    show ?thesis
      by (rule that [of "s\<lparr>metrics := (metrics s)\<lparr>total_requests := total_requests (metrics s) + 1,
                          successful_requests := successful_requests (metrics s) + 1,
                          response_times := response_times (metrics s) @ [fmul fl t 1000]\<rparr>,
              recent_response_times :=
                deque_append (window_size s) (recent_response_times s) (fmul fl t 1000),
              recent_errors := deque_append (window_size s) (recent_errors s) False\<rparr>"])
        (simp_all add: a record_success_def Let_def deque_append_nonempty assms(1))
  next
    assume a: "s' = record_failure fl s rt"
    show ?thesis
      by (rule that [of "(case rt of
                  None \<Rightarrow> s\<lparr>metrics := (metrics s)\<lparr>total_requests := total_requests (metrics s) + 1,
                          failed_requests := failed_requests (metrics s) + 1\<rparr>\<rparr>
                | Some t \<Rightarrow>
                    s\<lparr>metrics := (metrics s)\<lparr>total_requests := total_requests (metrics s) + 1,
                          failed_requests := failed_requests (metrics s) + 1,
                          response_times := response_times (metrics s) @ [fmul fl t 1000]\<rparr>,
                      recent_response_times :=
                        deque_append (window_size s) (recent_response_times s) (fmul fl t 1000)\<rparr>)
               \<lparr>recent_errors := deque_append (window_size s) (recent_errors s) True\<rparr>"])
        (simp_all add: a record_failure_def Let_def deque_append_nonempty assms(1)
          split: option.splits)
  qed
  have range: "min_delay s1 \<le> max_delay s1" using assms(2) same by simp
  have cl: "clamp_delay s1 = clamp_delay s" by (rule ext) (simp add: clamp_delay_def same)
  have counted: "requests_since_adjustment s' = requests_since_adjustment s + 1 \<and>
      current_delay s' = current_delay s"
    if "requests_since_adjustment s + 1 < adjustment_interval s"
  proof -
    from that have "requests_since_adjustment s1 + 1 < adjustment_interval s1"
      by (simp add: same)
    from count_request_rule(3) [where fl = fl, OF ne range this] show ?thesis
      unfolding s' same .
  qed
  have adjusted: "requests_since_adjustment s' = 0 \<and>
      current_delay s' = clamp_delay s
              (if error_rate fl s' > error_threshold s
               then fmul fl (current_delay s) (slowdown_factor s)
               else if recent_response_times s' \<noteq> [] \<and>
                       fdiv fl (avg_response_time fl s') 1000 < fast_response_threshold s
                 then fmul fl (current_delay s) (speedup_factor s)
               else current_delay s) \<and>
      min_delay s \<le> current_delay s' \<and> current_delay s' \<le> max_delay s"
    if "adjustment_interval s \<le> requests_since_adjustment s + 1"
  proof -
    from that have "adjustment_interval s1 \<le> requests_since_adjustment s1 + 1"
      by (simp add: same)
    from count_request_rule(4) [where fl = fl, OF ne range this] show ?thesis
      unfolding s' same cl .
  qed
  from counted adjusted show ?thesis by blast
qed

theorem record_adjusts_delay_witness:
  "0 < window_size failing_window \<and> min_delay failing_window \<le> max_delay failing_window \<and>
   adjustment_interval failing_window \<le> requests_since_adjustment failing_window + 1 \<and>
   error_rate exact_ops (record_failure exact_ops failing_window None) = 50 \<and>
   error_threshold failing_window = 10 \<and>
   current_delay failing_window = 1/2 \<and> slowdown_factor failing_window = 3/2 \<and>
   current_delay (record_failure exact_ops failing_window None) = 3/4 \<and>
   requests_since_adjustment (record_failure exact_ops failing_window None) = 0"
  using record_adjusts_delay [of failing_window "record_failure exact_ops failing_window None"
      exact_ops 0 None]
  by (simp add: record_failure_def count_request_def adjust_delay_def
      error_rate_def avg_response_time_def deque_append_def exact_ops_def
      failing_window_def default_throttler_def double_0_1_def double_0_8_def
      AdaptiveThrottler_init_def Let_def)

text \<open>
  Counted over a sequence of samples: with \<open>adjustment_interval\<close> at least 1 the count of
  samples since the last adjustment runs through \<open>0, 1, ..., adjustment_interval - 1\<close>
  and falls back to 0 exactly at the samples that adjust, that is at every
  \<open>adjustment_interval\<close>-th sample.
\<close>

lemma count_request_counter:
  "requests_since_adjustment (count_request fl s) =
     (if adjustment_interval s \<le> requests_since_adjustment s + 1 then 0
      else requests_since_adjustment s + 1)"
  "adjustment_interval (count_request fl s) = adjustment_interval s"
  by (simp_all add: count_request_def)

lemma record_sample_counter:
  "requests_since_adjustment (record_sample fl s x) =
     (if adjustment_interval s \<le> requests_since_adjustment s + 1 then 0
      else requests_since_adjustment s + 1)"
  "adjustment_interval (record_sample fl s x) = adjustment_interval s"
  by (cases x; simp add: record_success_def record_failure_def count_request_counter Let_def
      split: option.splits)+

lemma samples_counter:
  assumes "1 \<le> adjustment_interval s" "0 \<le> requests_since_adjustment s"
    "requests_since_adjustment s < adjustment_interval s"
  shows "requests_since_adjustment (foldl (record_sample fl) s xs)
           = (requests_since_adjustment s + int (length xs)) mod adjustment_interval s \<and>
         adjustment_interval (foldl (record_sample fl) s xs) = adjustment_interval s"
proof (induction xs rule: rev_induct)
  case Nil
  then show ?case using assms by simp
next
  case (snoc x xs)
  let ?K = "adjustment_interval s"
  let ?n = "requests_since_adjustment s + int (length xs)"
  let ?s1 = "foldl (record_sample fl) s xs"
  from snoc have c: "requests_since_adjustment ?s1 = ?n mod ?K"
    and k: "adjustment_interval ?s1 = ?K" by simp_all
  have bounds: "0 \<le> ?n mod ?K" "?n mod ?K < ?K" using assms(1) by simp_all
  have step: "(?n + 1) mod ?K = (if ?K \<le> ?n mod ?K + 1 then 0 else ?n mod ?K + 1)"
  proof (cases "?K \<le> ?n mod ?K + 1")
    case True
    with bounds have "?n mod ?K + 1 = ?K" by simp
    then have "(?n mod ?K + 1) mod ?K = 0" by simp
    then have "(?n + 1) mod ?K = 0" by (simp add: mod_add_left_eq)
    with True show ?thesis by simp
  next
    case False
    then have "(?n mod ?K + 1) mod ?K = ?n mod ?K + 1" using bounds by simp
    then have "(?n + 1) mod ?K = ?n mod ?K + 1" by (simp add: mod_add_left_eq)
    with False show ?thesis by simp
  qed
  have "requests_since_adjustment (record_sample fl ?s1 x) = (?n + 1) mod ?K"
    by (simp only: record_sample_counter(1) c k step)
  then show ?case by (simp add: record_sample_counter(2) k ac_simps)
qed

text \<open>
  Fast responses without errors speed the crawl up: the tenth sample, a success after a
  quarter of a second, multiplies the delay 0.5 by the factor 0.8.
\<close>

lemma record_success_fast_window:
  "error_rate exact_ops (record_success exact_ops fast_window (1/4)) = 0 \<and>
   avg_response_time exact_ops (record_success exact_ops fast_window (1/4)) = 250 \<and>
   current_delay (record_success exact_ops fast_window (1/4)) = double_0_8 / 2"
  by (simp add: record_success_def count_request_def adjust_delay_def
      error_rate_def avg_response_time_def deque_append_def exact_ops_def
      fast_window_def default_throttler_def double_0_1_def double_0_8_def
      AdaptiveThrottler_init_def Let_def)

subsection \<open>NodeMapper: Node to NodeDTO and back\<close>

lemma validate_url_prefix:
  "validate_url env u = Inr v \<Longrightarrow> take 7 u = ''http://'' \<or> take 8 u = ''https://''"
  by (auto simp: validate_url_def split: if_splits sum.splits prod.splits)

text \<open>
  C10: for every node (an object that satisfies the validators of \<open>Node\<close>), \<open>to_dto\<close>
  succeeds, \<open>to_domain\<close> of the result without a context succeeds, and the node it
  yields has the same thirteen serialised fields and no plugin manager, tree parser or
  hash strategy.
\<close>

theorem node_mapper_round_trip:
  assumes "is_valid_node env n"
  shows "\<exists>d n'. to_dto n = Inr d \<and> to_domain env d None = Inr n' \<and>
           node_data n' = node_data n \<and>
           plugin_manager n' = None \<and> tree_parser n' = None \<and> hash_strategy n' = None"
proof -
  from assms have v: "validate_url env (url n) = Inr (url n)" and fc: "field_constraints_ok n"
    by (simp_all add: is_valid_node_def)
  have pre: "take 7 (url n) = ''http://'' \<or> take 8 (url n) = ''https://''"
    using validate_url_prefix [OF v] .
  have lc: "NodeLifecycle_of (lifecycle_value (lifecycle_stage n)) = Inr (lifecycle_stage n)"
    by (cases "lifecycle_stage n") (simp_all add: NodeLifecycle_of_def)
  have lv: "lifecycle_value (lifecycle_stage n) = ''url_stage'' \<or>
            lifecycle_value (lifecycle_stage n) = ''html_stage''"
    by (cases "lifecycle_stage n") simp_all
  show ?thesis
    using pre lc lv v fc
    by (auto simp: to_dto_def NodeDTO_init_def to_domain_def Node_init_def empty_context_def
        trigger_node_created_hook_def field_constraints_ok_def node_data_def NodeData.truncate_def
        Let_def)
qed

lemma validate_example_url:
  "validate_url example_env ''https://example.com'' = Inr ''https://example.com''"
  by (simp add: validate_url_def urlparse_def urlsplit_def
      strip_url_def split_scheme_def splitnetloc_def split_at_def before_first_def after_first_def
      is_c0_control_or_space_def is_unsafe_url_byte_def is_ascii_alpha_def scheme_chars_def
      ascii_lowercase_def ascii_uppercase_def lower_char_def is_netloc_delim_def bracket_check_def
      checknetloc_def uses_params_def example_env_def Let_def)

lemma stored_node_valid: "is_valid_node example_env stored_node"
  using validate_example_url
  by (simp add: is_valid_node_def stored_node_def example_node_def field_constraints_ok_def)

theorem node_mapper_round_trip_witness:
  "is_valid_node example_env stored_node \<and> plugin_manager stored_node = Some example_manager \<and>
   (\<exists>d n'. to_dto stored_node = Inr d \<and> to_domain example_env d None = Inr n' \<and>
      node_data n' = node_data stored_node \<and>
      plugin_manager n' = None \<and> tree_parser n' = None \<and> hash_strategy n' = None)"
  using node_mapper_round_trip [OF stored_node_valid] stored_node_valid
  by (simp add: stored_node_def)

subsection \<open>URL normalisation\<close>






lemma before_first_notin [simp]: "c \<notin> set (before_first c s)"
  by (auto simp: before_first_def dest: set_takeWhileD)






lemma before_first_id: "c \<notin> set s \<Longrightarrow> before_first c s = s"
  by (induction s) (auto simp: before_first_def)















lemma last_segment_no_slash [simp]: "CHR ''/'' \<notin> set (last_segment p)"
  by (auto simp: last_segment_def dest: set_takeWhileD)

















lemma bracket_check_Nil [simp]: "bracket_check env []"
  by (simp add: bracket_check_def)

lemma checknetloc_Nil [simp]: "checknetloc env []"
  by (simp add: checknetloc_def)





















end
